theory Spec2Isabelle
  imports Complex_Main "HOL-Library.Word"
begin

section \<open>JavaScript values\<close>

text \<open>
  A JavaScript string is a sequence of UTF-16 code units; \<open>substring\<close> and the regular
  expression of the scoring adapter count code units. \<open>js\<close> embeds an ASCII literal.
\<close>

type_synonym jsstring = "16 word list"

definition js :: "string \<Rightarrow> jsstring" where
  "js s = map of_char s"

text \<open>
  A JavaScript number is a double. A finite double is the rational it denotes (negative
  zero is zero); the three special values are kept, since the code can produce them.
\<close>

datatype jsnum = NaN | NegInf | Fin rat | PosInf

text \<open>
  The Number value of a real, which is how an arithmetic result and a decimal text become
  a double: the nearest double, a tie going to the even significand. A double has 53
  significant bits and exponents from \<open>-1022\<close>, below which the spacing stays
  \<open>2 ^ -1074\<close>; a result that rounds to \<open>2 ^ 1024\<close> or beyond is an infinity.
  \<open>bit_length n\<close> is the number of binary digits of \<open>n\<close>, and \<open>floor_log2 x\<close> the
  exponent \<open>e\<close> with \<open>2 ^ e \<le> x < 2 ^ (e + 1)\<close> of a positive \<open>x\<close>.
\<close>

fun bit_length :: "nat \<Rightarrow> nat" where
  [simp del]: "bit_length n = (if n = 0 then 0 else Suc (bit_length (n div 2)))"

definition floor_log2 :: "rat \<Rightarrow> int" where
  "floor_log2 x =
     (if 1 \<le> x then int (bit_length (nat \<lfloor>x\<rfloor>)) - 1
      else - int (bit_length (nat (\<lceil>1 / x\<rceil> - 1))))"

definition pow2 :: "int \<Rightarrow> rat" where
  "pow2 k = (if 0 \<le> k then 2 ^ nat k else 1 / 2 ^ nat (- k))"

definition round_half_even :: "rat \<Rightarrow> int" where
  "round_half_even y =
     (let f = \<lfloor>y\<rfloor>; d = y - of_int f
      in if d < 1 / 2 then f else if 1 / 2 < d then f + 1 else if even f then f else f + 1)"

definition Number_of :: "rat \<Rightarrow> jsnum" where
  "Number_of x =
     (if x = 0 then Fin 0
      else
        let e = max (floor_log2 \<bar>x\<bar>) (- 1022);
            q = pow2 (e - 52);
            r = of_int (round_half_even (x / q)) * q
        in if pow2 1024 \<le> \<bar>r\<bar> then (if 0 < x then PosInf else NegInf) else Fin r)"

definition js_neg :: "jsnum \<Rightarrow> jsnum" where
  "js_neg x = (case x of NaN \<Rightarrow> NaN | NegInf \<Rightarrow> PosInf | Fin a \<Rightarrow> Fin (- a) | PosInf \<Rightarrow> NegInf)"

text \<open>The sign of a non-NaN number: \<open>-1\<close>, \<open>0\<close> or \<open>1\<close>.\<close>

definition js_sign :: "jsnum \<Rightarrow> int" where
  "js_sign x =
     (case x of
        NaN \<Rightarrow> 0
      | NegInf \<Rightarrow> - 1
      | Fin a \<Rightarrow> (if a < 0 then - 1 else if a = 0 then 0 else 1)
      | PosInf \<Rightarrow> 1)"

definition signed_inf :: "int \<Rightarrow> jsnum" where
  "signed_inf s = (if s = 0 then NaN else if 0 < s then PosInf else NegInf)"

text \<open>
  The operators \<open>+\<close>, \<open>*\<close> and \<open>/\<close> on numbers: the exact result, rounded to its Number
  value.
\<close>

fun double_add :: "jsnum \<Rightarrow> jsnum \<Rightarrow> jsnum" where
  "double_add NaN _ = NaN"
| "double_add _ NaN = NaN"
| "double_add (Fin a) (Fin b) = Number_of (a + b)"
| "double_add PosInf NegInf = NaN"
| "double_add NegInf PosInf = NaN"
| "double_add PosInf _ = PosInf"
| "double_add _ PosInf = PosInf"
| "double_add NegInf _ = NegInf"
| "double_add _ NegInf = NegInf"

fun double_mul :: "jsnum \<Rightarrow> jsnum \<Rightarrow> jsnum" where
  "double_mul NaN _ = NaN"
| "double_mul _ NaN = NaN"
| "double_mul (Fin a) (Fin b) = Number_of (a * b)"
| "double_mul x y = signed_inf (js_sign x * js_sign y)"

fun double_div :: "jsnum \<Rightarrow> jsnum \<Rightarrow> jsnum" where
  "double_div NaN _ = NaN"
| "double_div _ NaN = NaN"
| "double_div (Fin a) (Fin b) = (if b = 0 then signed_inf (js_sign (Fin a)) else Number_of (a / b))"
| "double_div (Fin a) _ = Fin 0"
| "double_div x (Fin b) = (if b < 0 then js_neg x else x)"
| "double_div _ _ = NaN"

text \<open>
  The quotient of two numbers before it is rounded. The listing takes the ceiling of the
  quotient of two whole numbers, which the rounding leaves as it is for a count below
  \<open>2 ^ 53\<close> and a limit up to \<open>2 ^ 53\<close> (lemma \<open>page_count_rounding\<close>).
\<close>

fun js_div :: "jsnum \<Rightarrow> jsnum \<Rightarrow> jsnum" where
  "js_div NaN _ = NaN"
| "js_div _ NaN = NaN"
| "js_div (Fin a) (Fin b) = (if b = 0 then signed_inf (js_sign (Fin a)) else Fin (a / b))"
| "js_div (Fin a) _ = Fin 0"
| "js_div x (Fin b) = (if b < 0 then js_neg x else x)"
| "js_div _ _ = NaN"

text \<open>\<open>Math.round\<close> and \<open>Math.ceil\<close> return a whole number, which needs no rounding.\<close>

definition Math_round :: "jsnum \<Rightarrow> jsnum" where
  "Math_round x = (case x of Fin a \<Rightarrow> Fin (of_int \<lfloor>a + 1 / 2\<rfloor>) | _ \<Rightarrow> x)"

definition Math_ceil :: "jsnum \<Rightarrow> jsnum" where
  "Math_ceil x = (case x of Fin a \<Rightarrow> Fin (of_int \<lceil>a\<rceil>) | _ \<Rightarrow> x)"

fun js_le :: "jsnum \<Rightarrow> jsnum \<Rightarrow> bool" where
  "js_le NaN _ = False"
| "js_le _ NaN = False"
| "js_le NegInf _ = True"
| "js_le _ PosInf = True"
| "js_le (Fin a) (Fin b) = (a \<le> b)"
| "js_le _ _ = False"

definition Math_min :: "jsnum \<Rightarrow> jsnum \<Rightarrow> jsnum" where
  "Math_min x y = (if x = NaN \<or> y = NaN then NaN else if js_le x y then x else y)"

definition Math_max :: "jsnum \<Rightarrow> jsnum \<Rightarrow> jsnum" where
  "Math_max x y = (if x = NaN \<or> y = NaN then NaN else if js_le x y then y else x)"

text \<open>
  The values \<open>JSON.parse\<close> can return, which are also the documents of a \<open>jsonb\<close>
  column; the order of the fields of an object carries no meaning.
\<close>

datatype json =
    JNull
  | JBool bool
  | JNumber jsnum
  | JString jsstring
  | JArray "json list"
  | JObject "(jsstring \<times> json) list"

text \<open>A thrown value. Everything thrown in this code base is an \<open>Error\<close> with a message.\<close>

datatype js_error = Error (message: jsstring)

text \<open>Truthiness, as \<open>||\<close> and \<open>if\<close> test it; \<open>None\<close> is \<open>undefined\<close>.\<close>

fun truthy :: "json \<Rightarrow> bool" where
  "truthy JNull = False"
| "truthy (JBool b) = b"
| "truthy (JNumber n) = (n \<noteq> NaN \<and> n \<noteq> Fin 0)"
| "truthy (JString s) = (s \<noteq> [])"
| "truthy (JArray _) = True"
| "truthy (JObject _) = True"

definition js_or :: "json option \<Rightarrow> json \<Rightarrow> json" where
  "js_or v d = (case v of None \<Rightarrow> d | Some x \<Rightarrow> if truthy x then x else d)"

text \<open>
  Reading a property of a parsed value: \<open>null\<close> throws a TypeError, an object yields
  the field or \<open>undefined\<close>, and no other JSON value has a property of these names.
\<close>

fun get_prop :: "json \<Rightarrow> jsstring \<Rightarrow> js_error + json option" where
  "get_prop JNull k = Inl (Error (js ''Cannot read properties of null'' ))"
| "get_prop (JObject fs) k = Inr (map_of fs k)"
| "get_prop _ k = Inr None"

definition bindE :: "'e + 'a \<Rightarrow> ('a \<Rightarrow> 'e + 'b) \<Rightarrow> 'e + 'b" where
  "bindE m f = (case m of Inl e \<Rightarrow> Inl e | Inr x \<Rightarrow> f x)"

section \<open>Data model\<close>

text \<open>
  The interfaces and entities of \<open>pronunciation-attempt.entity.ts\<close> and \<open>user.entity.ts\<close>.
  Field names carry a prefix, since record fields share one name space. \<open>AnalysisResult\<close>
  is declared with string fields, but holds whatever the parsed model response holds, so
  the lists and the feedback are JSON values.
\<close>

record AnalysisResult =
  ar_overallScore :: jsnum
  ar_toneAccuracy :: jsnum
  ar_pronunciationErrors :: "json list"
  ar_suggestions :: "json list"
  ar_detailedFeedback :: json

record AudioMetadata =
  am_duration :: jsnum
  am_sampleRate :: jsnum
  am_format :: jsstring
  am_size :: jsnum

datatype processing_status = Pending | Processing | Completed | Failed

text \<open>
  The value of a \<open>decimal(3,1)\<close> column: a decimal with one fractional digit and an
  absolute value below 100, or the NaN of the database's numeric type.
\<close>

datatype decimal = Decimal_NaN | Decimal rat

text \<open>
  A row of \<open>pronunciation_attempts\<close>, each field as its column holds it and returns it:
  the two \<open>uuid\<close> columns as the text of the identifier, the two \<open>jsonb\<close> columns as
  documents, \<open>overall_score\<close> as a decimal. \<open>pa_userId = None\<close> and
  \<open>pa_errorMessage = None\<close> are \<open>NULL\<close>. Of the two timestamps only \<open>createdAt\<close> is read
  by the code; \<open>updatedAt\<close> and the joined \<open>user\<close> are left out.
\<close>

record PronunciationAttempt =
  pa_id :: jsstring
  pa_userId :: "jsstring option"
  pa_originalText :: jsstring
  pa_audioFileUrl :: jsstring
  pa_ipfsHash :: jsstring
  pa_analysisResult :: json
  pa_audioMetadata :: json
  pa_overallScore :: decimal
  pa_processingStatus :: processing_status
  pa_errorMessage :: "jsstring option"
  pa_createdAt :: nat

datatype ChineseLevel = HSK1 | HSK2 | HSK3 | HSK4 | HSK5 | HSK6 | NATIVE

fun level_string :: "ChineseLevel \<Rightarrow> jsstring" where
  "level_string HSK1 = js ''HSK1''"
| "level_string HSK2 = js ''HSK2''"
| "level_string HSK3 = js ''HSK3''"
| "level_string HSK4 = js ''HSK4''"
| "level_string HSK5 = js ''HSK5''"
| "level_string HSK6 = js ''HSK6''"
| "level_string NATIVE = js ''NATIVE''"

text \<open>
  A row of \<open>users\<close>: \<open>total_attempts\<close> is an \<open>int\<close> column, \<open>average_score\<close> a
  \<open>decimal(3,1)\<close> column that may be \<open>NULL\<close>.
\<close>

record User =
  u_id :: jsstring
  u_email :: jsstring
  u_username :: jsstring
  u_displayName :: "jsstring option"
  u_level :: ChineseLevel
  u_totalAttempts :: int
  u_averageScore :: "decimal option"
  u_isActive :: bool

record CreatePronunciationAttemptRequest =
  rq_userId :: "jsstring option"
  rq_originalText :: jsstring
  rq_audioBuffer :: "8 word list"
  rq_audioMetadata :: AudioMetadata

text \<open>
  The response carries the fields of a row that was read from the database, so its
  \<open>analysisResult\<close> is the stored document and its \<open>overallScore\<close> the stored decimal.
\<close>

record PronunciationAnalysisResponse =
  rs_id :: jsstring
  rs_originalText :: jsstring
  rs_audioFileUrl :: jsstring
  rs_analysisResult :: json
  rs_overallScore :: decimal
  rs_processingStatus :: processing_status
  rs_createdAt :: nat

record PinataUploadResponse =
  IpfsHash :: jsstring
  PinSize :: jsnum
  Timestamp :: jsstring
  isDuplicate :: "bool option"

record GeminiAnalysisRequest =
  gr_audioUrl :: jsstring
  gr_originalText :: jsstring
  gr_userLevel :: jsstring

text \<open>A Gemini response: its candidates, each the texts of its content parts.\<close>

record GeminiResponse =
  candidates :: "jsstring list list"

section \<open>The world outside the code\<close>

text \<open>
  The repository calls of \<open>pronunciation.service.ts\<close>, one constructor for each call
  in the source; the two calls of \<open>updateProcessingStatus\<close> are told apart by the
  status they write.
\<close>

datatype db_call =
    CreateInitialAttempt_save
  | UpdateProcessingStatus_update processing_status
  | UpdateAttemptWithIPFS_update
  | PerformAIAnalysis_findOne
  | FinalizeAnalysis_update
  | FinalizeAnalysis_findOne
  | UpdateUserStatistics_findOne
  | UpdateUserStatistics_update
  | GetUserPronunciationAttempts_findAndCount

text \<open>
  The violations of the schema of the entities that the model derives: a text that is not
  a uuid for a \<open>uuid\<close> column, a \<open>user_id\<close> that is the identifier of no user (the
  foreign key of the \<open>ManyToOne\<close> relation), a number that does not fit
  \<open>decimal(3,1)\<close>, and a whole number that does not fit \<open>int\<close>.
\<close>

datatype db_violation =
    Invalid_uuid
  | Foreign_key
  | Numeric_overflow
  | Infinite_numeric
  | Integer_out_of_range

text \<open>
  Everything a run receives from outside: which repository calls the database rejects
  for a reason that the model does not derive from the tables and the values written (a
  lost connection, the length limit of a text column), the error it raises for a
  violation of the schema that the model does derive, its reading of a text as a uuid
  (\<open>None\<close> when the text is not one, otherwise the uuid in the text form in which the
  database returns it), the identifier and the creation time it assigns to the new row,
  the replies of the two HTTP endpoints to the one request a run sends each, the
  configured gateway host, the platform's \<open>JSON.parse\<close> and conversions to number (of a
  string; of an array or object, which may throw), and the decimal that
  \<open>Number.prototype.toString\<close> prints for a finite number, which is what the database
  driver sends for it.
\<close>

record world =
  db_fault :: "db_call \<Rightarrow> js_error option"
  violation_error :: "db_violation \<Rightarrow> js_error"
  uuid_in :: "jsstring \<Rightarrow> jsstring option"
  generated_id :: jsstring
  now :: nat
  pinata_post :: "8 word list \<Rightarrow> AudioMetadata \<Rightarrow> jsstring \<Rightarrow> js_error + PinataUploadResponse"
  gatewayUrl :: jsstring
  gemini_post :: "GeminiAnalysisRequest \<Rightarrow> js_error + GeminiResponse"
  JSON_parse :: "jsstring \<Rightarrow> js_error + json"
  StringToNumber :: "jsstring \<Rightarrow> jsnum"
  ObjectToNumber :: "json \<Rightarrow> js_error + jsnum"
  Number_toString :: "rat \<Rightarrow> rat"

text \<open>
  The two tables. \<open>history\<close> is a ghost field: the attempts table after each write to
  it, oldest first; no operation reads it.
\<close>

record db =
  attempts :: "PronunciationAttempt list"
  users :: "User list"
  history :: "PronunciationAttempt list list"

section \<open>Columns\<close>

text \<open>
  Writing a number to a \<open>decimal(3,1)\<close> column: the database reads the decimal that the
  driver sends, rounds it to one fractional digit, halves away from zero, and refuses
  the result from 100 on; NaN is stored as it is, an infinity is refused. Read back, the
  column is the text of the decimal, which arithmetic converts to its Number value.
\<close>

definition round_scale_1 :: "rat \<Rightarrow> rat" where
  "round_scale_1 v =
     (if 0 \<le> v then of_int \<lfloor>v * 10 + 1 / 2\<rfloor> / 10 else - (of_int \<lfloor>- v * 10 + 1 / 2\<rfloor> / 10))"

definition decimal_3_1 :: "world \<Rightarrow> jsnum \<Rightarrow> db_violation + decimal" where
  "decimal_3_1 w x =
     (case x of
        NaN \<Rightarrow> Inr Decimal_NaN
      | NegInf \<Rightarrow> Inl Infinite_numeric
      | Fin a \<Rightarrow>
          (let r = round_scale_1 (Number_toString w a)
           in if 100 \<le> \<bar>r\<bar> then Inl Numeric_overflow else Inr (Decimal r))
      | PosInf \<Rightarrow> Inl Infinite_numeric)"

definition decimal_to_number :: "decimal \<Rightarrow> jsnum" where
  "decimal_to_number d = (case d of Decimal_NaN \<Rightarrow> NaN | Decimal r \<Rightarrow> Number_of r)"

text \<open>
  Writing a value to a \<open>jsonb\<close> column: the driver sends \<open>JSON.stringify\<close> of it, in which
  NaN and the infinities are \<open>null\<close>.
\<close>

primrec jsonb :: "json \<Rightarrow> json" where
  "jsonb JNull = JNull"
| "jsonb (JBool b) = JBool b"
| "jsonb (JNumber n) = (case n of Fin a \<Rightarrow> JNumber (Fin a) | _ \<Rightarrow> JNull)"
| "jsonb (JString s) = JString s"
| "jsonb (JArray xs) = JArray (map jsonb xs)"
| "jsonb (JObject fs) = JObject (map (map_prod id jsonb) fs)"

definition analysis_json :: "AnalysisResult \<Rightarrow> json" where
  "analysis_json r =
     JObject
       [(js ''overallScore'', JNumber (ar_overallScore r)),
        (js ''toneAccuracy'', JNumber (ar_toneAccuracy r)),
        (js ''pronunciationErrors'', JArray (ar_pronunciationErrors r)),
        (js ''suggestions'', JArray (ar_suggestions r)),
        (js ''detailedFeedback'', ar_detailedFeedback r)]"

definition metadata_json :: "AudioMetadata \<Rightarrow> json" where
  "metadata_json m =
     JObject
       [(js ''duration'', JNumber (am_duration m)),
        (js ''sampleRate'', JNumber (am_sampleRate m)),
        (js ''format'', JString (am_format m)),
        (js ''size'', JNumber (am_size m))]"

text \<open>
  Writing a user identifier to \<open>user_id\<close>: no identifier is \<open>NULL\<close>; a text must be a
  uuid, and the uuid that of a stored user. The result is the identifier as stored.
\<close>

definition user_reference :: "world \<Rightarrow> jsstring option \<Rightarrow> db \<Rightarrow> db_violation + jsstring option" where
  "user_reference w userId s =
     (case userId of
        None \<Rightarrow> Inr None
      | Some given \<Rightarrow>
          (case uuid_in w given of
             None \<Rightarrow> Inl Invalid_uuid
           | Some u \<Rightarrow>
               if find (\<lambda>r. u_id r = u) (users s) = None then Inl Foreign_key
               else Inr (Some u)))"

section \<open>Repositories\<close>

text \<open>
  The repository methods the services call. \<open>save\<close> inserts the row, unless the schema
  refuses the user identifier given for it; \<open>update\<close> patches the columns given to it on
  every row with the identifier (none, when there is no such row), unless the schema
  refuses a value, and so takes either the patch or the violation; \<open>findOne\<close> reads the
  row back. A call that is rejected, by the world or by the schema, changes nothing. The
  identifier of an attempt is only ever the one the database generated; that of a user
  comes from the caller and is read as a uuid.
\<close>

definition insert_row :: "PronunciationAttempt \<Rightarrow> db \<Rightarrow> db" where
  "insert_row row s =
     (let rows = attempts s @ [row]
      in s\<lparr>attempts := rows, history := history s @ [rows]\<rparr>)"

definition patch_rows :: "jsstring \<Rightarrow> (PronunciationAttempt \<Rightarrow> PronunciationAttempt) \<Rightarrow> db \<Rightarrow> db" where
  "patch_rows i patch s =
     (let rows = map (\<lambda>r. if pa_id r = i then patch r else r) (attempts s)
      in s\<lparr>attempts := rows, history := history s @ [rows]\<rparr>)"

definition patch_users :: "jsstring \<Rightarrow> (User \<Rightarrow> User) \<Rightarrow> db \<Rightarrow> db" where
  "patch_users i patch s =
     s\<lparr>users := map (\<lambda>u. if u_id u = i then patch u else u) (users s)\<rparr>"

definition attempts_save ::
  "world \<Rightarrow> db_call \<Rightarrow> jsstring option \<Rightarrow> PronunciationAttempt \<Rightarrow> db
     \<Rightarrow> (js_error + PronunciationAttempt) \<times> db" where
  "attempts_save w c userId row s =
     (case db_fault w c of
        Some e \<Rightarrow> (Inl e, s)
      | None \<Rightarrow>
          (case user_reference w userId s of
             Inl v \<Rightarrow> (Inl (violation_error w v), s)
           | Inr _ \<Rightarrow> (Inr row, insert_row row s)))"

definition attempts_update ::
  "world \<Rightarrow> db_call \<Rightarrow> jsstring \<Rightarrow> db_violation + (PronunciationAttempt \<Rightarrow> PronunciationAttempt)
     \<Rightarrow> db \<Rightarrow> (js_error + unit) \<times> db" where
  "attempts_update w c i change s =
     (case db_fault w c of
        Some e \<Rightarrow> (Inl e, s)
      | None \<Rightarrow>
          (case change of
             Inl v \<Rightarrow> (Inl (violation_error w v), s)
           | Inr patch \<Rightarrow> (Inr (), patch_rows i patch s)))"

definition attempts_findOne ::
  "world \<Rightarrow> db_call \<Rightarrow> jsstring \<Rightarrow> db \<Rightarrow> js_error + PronunciationAttempt option" where
  "attempts_findOne w c i s =
     (case db_fault w c of
        Some e \<Rightarrow> Inl e
      | None \<Rightarrow> Inr (find (\<lambda>r. pa_id r = i) (attempts s)))"

definition users_findOne ::
  "world \<Rightarrow> db_call \<Rightarrow> jsstring \<Rightarrow> db \<Rightarrow> js_error + User option" where
  "users_findOne w c i s =
     (case db_fault w c of
        Some e \<Rightarrow> Inl e
      | None \<Rightarrow>
          (case uuid_in w i of
             None \<Rightarrow> Inl (violation_error w Invalid_uuid)
           | Some u \<Rightarrow> Inr (find (\<lambda>r. u_id r = u) (users s))))"

definition users_update ::
  "world \<Rightarrow> db_call \<Rightarrow> jsstring \<Rightarrow> db_violation + (User \<Rightarrow> User) \<Rightarrow> db
     \<Rightarrow> (js_error + unit) \<times> db" where
  "users_update w c i change s =
     (case db_fault w c of
        Some e \<Rightarrow> (Inl e, s)
      | None \<Rightarrow>
          (case uuid_in w i of
             None \<Rightarrow> (Inl (violation_error w Invalid_uuid), s)
           | Some u \<Rightarrow>
               (case change of
                  Inl v \<Rightarrow> (Inl (violation_error w v), s)
                | Inr patch \<Rightarrow> (Inr (), patch_users u patch s))))"



section \<open>GeminiService\<close>

text \<open>
  \<open>analysisText.match(/\{[\s\S]*\}/)\<close>: the match starts at the first \<open>{\<close> and, the
  star being greedy over every code unit, ends at the last \<open>}\<close> after it; there is no
  match when no \<open>}\<close> follows the first \<open>{\<close>.
\<close>

definition LBRACE :: "16 word" where
  "LBRACE = 123"

definition RBRACE :: "16 word" where
  "RBRACE = 125"

definition jsonMatch :: "jsstring \<Rightarrow> jsstring option" where
  "jsonMatch analysisText =
     (case dropWhile (\<lambda>c. c \<noteq> LBRACE) analysisText of
        [] \<Rightarrow> None
      | _ # body \<Rightarrow>
          if RBRACE \<in> set body
          then Some (LBRACE # rev (dropWhile (\<lambda>c. c \<noteq> RBRACE) (rev body)))
          else None)"

text \<open>\<open>ToNumber\<close>, which \<open>Math.min\<close> applies to its arguments.\<close>

fun ToNumber :: "world \<Rightarrow> json \<Rightarrow> js_error + jsnum" where
  "ToNumber w JNull = Inr (Fin 0)"
| "ToNumber w (JBool b) = Inr (Fin (if b then 1 else 0))"
| "ToNumber w (JNumber n) = Inr n"
| "ToNumber w (JString s) = Inr (StringToNumber w s)"
| "ToNumber w v = ObjectToNumber w v"

text \<open>\<open>Math.max(0, Math.min(100, v || 0))\<close>\<close>

definition clamp_score :: "world \<Rightarrow> json option \<Rightarrow> js_error + jsnum" where
  "clamp_score w v =
     bindE (ToNumber w (js_or v (JNumber (Fin 0))))
       (\<lambda>n. Inr (Math_max (Fin 0) (Math_min (Fin 100) n)))"

definition no_detailed_feedback :: jsstring where
  "no_detailed_feedback =
     [75, 104, 244, 110, 103, 32, 99, 243, 32, 112, 104, 7843, 110, 32, 104, 7891, 105, 32,
      99, 104, 105, 32, 116, 105, 7871, 116, 46]"

definition cannot_analyse :: jsstring where
  "cannot_analyse =
     [75, 104, 244, 110, 103, 32, 116, 104, 7875, 32, 112, 104, 226, 110, 32, 116, 237, 99,
      104, 32, 99, 104, 105, 32, 116, 105, 7871, 116]"

definition try_again_clearer :: jsstring where
  "try_again_clearer =
     [72, 227, 121, 32, 116, 104, 7917, 32, 108, 7841, 105, 32, 118, 7899, 105, 32, 226, 109,
      32, 116, 104, 97, 110, 104, 32, 114, 245, 32, 114, 224, 110, 103, 32, 104, 417, 110]"

text \<open>\<open>Array.isArray(v) ? v : []\<close>\<close>

definition array_or_empty :: "json option \<Rightarrow> json list" where
  "array_or_empty v = (case v of Some (JArray xs) \<Rightarrow> xs | _ \<Rightarrow> [])"

text \<open>
  The \<open>try\<close> block of \<open>parseAnalysisResult\<close>: \<open>Inl\<close> when something in it throws,
  \<open>Inr None\<close> when the text has no match and the block falls through, \<open>Inr (Some r)\<close>
  when it returns \<open>r\<close>.
\<close>

definition parseAnalysisResult_try :: "world \<Rightarrow> jsstring \<Rightarrow> js_error + AnalysisResult option" where
  "parseAnalysisResult_try w analysisText =
     (case jsonMatch analysisText of
        None \<Rightarrow> Inr None
      | Some jsonMatch0 \<Rightarrow>
          bindE (JSON_parse w jsonMatch0) (\<lambda>parsed.
          bindE (get_prop parsed (js ''overallScore'')) (\<lambda>p_overallScore.
          bindE (clamp_score w p_overallScore) (\<lambda>overallScore.
          bindE (get_prop parsed (js ''toneAccuracy'')) (\<lambda>p_toneAccuracy.
          bindE (clamp_score w p_toneAccuracy) (\<lambda>toneAccuracy.
          bindE (get_prop parsed (js ''pronunciationErrors'')) (\<lambda>p_pronunciationErrors.
          bindE (get_prop parsed (js ''suggestions'')) (\<lambda>p_suggestions.
          bindE (get_prop parsed (js ''detailedFeedback'')) (\<lambda>p_detailedFeedback.
            Inr (Some
              \<lparr>ar_overallScore = overallScore,
               ar_toneAccuracy = toneAccuracy,
               ar_pronunciationErrors = array_or_empty p_pronunciationErrors,
               ar_suggestions = array_or_empty p_suggestions,
               ar_detailedFeedback =
                 js_or p_detailedFeedback (JString no_detailed_feedback)\<rparr>))))))))))"

definition fallback_result :: "jsstring \<Rightarrow> AnalysisResult" where
  "fallback_result analysisText =
     \<lparr>ar_overallScore = Fin 75,
      ar_toneAccuracy = Fin 70,
      ar_pronunciationErrors = [JString cannot_analyse],
      ar_suggestions = [JString try_again_clearer],
      ar_detailedFeedback = JString (take 500 analysisText)\<rparr>"

text \<open>
  The \<open>catch\<close> only logs, so a throw and a fall-through both reach the fallback. The
  function has no way to throw: its result is an \<open>AnalysisResult\<close>.
\<close>

definition parseAnalysisResult :: "world \<Rightarrow> jsstring \<Rightarrow> AnalysisResult" where
  "parseAnalysisResult w analysisText =
     (case parseAnalysisResult_try w analysisText of
        Inr (Some r) \<Rightarrow> r
      | _ \<Rightarrow> fallback_result analysisText)"

text \<open>
  \<open>GeminiService.analyzePronunciation\<close>. The world's \<open>gemini_post\<close> is the reply to the
  prompt built from the request. An empty candidate list is thrown as an error, a first
  candidate without parts is a TypeError; the \<open>catch\<close> wraps whatever was thrown.
\<close>

definition undefined_text_error :: js_error where
  "undefined_text_error =
     Error (js ''Cannot read properties of undefined (reading '' @ [39] @ js ''text'' @ [39] @ js '')'')"

definition GeminiService_analyzePronunciation ::
  "world \<Rightarrow> GeminiAnalysisRequest \<Rightarrow> js_error + AnalysisResult" where
  "GeminiService_analyzePronunciation w request =
     (case bindE (gemini_post w request) (\<lambda>geminiResponse.
             case candidates geminiResponse of
               [] \<Rightarrow> Inl (Error (js ''No analysis result from Gemini''))
             | parts # _ \<Rightarrow>
                 (case parts of
                    [] \<Rightarrow> Inl undefined_text_error
                  | analysisText # _ \<Rightarrow> Inr (parseAnalysisResult w analysisText)))
      of
        Inl error \<Rightarrow> Inl (Error (js ''AI analysis failed: '' @ message error))
      | Inr r \<Rightarrow> Inr r)"

section \<open>PinataService\<close>

definition PinataService_uploadAudio ::
  "world \<Rightarrow> 8 word list \<Rightarrow> AudioMetadata \<Rightarrow> jsstring \<Rightarrow> js_error + PinataUploadResponse" where
  "PinataService_uploadAudio w audioBuffer metadata attemptId =
     (case pinata_post w audioBuffer metadata attemptId of
        Inl error \<Rightarrow> Inl (Error (js ''IPFS upload failed: '' @ message error))
      | Inr data \<Rightarrow> Inr data)"

definition getPublicUrl :: "world \<Rightarrow> jsstring \<Rightarrow> jsstring" where
  "getPublicUrl w ipfsHash = js ''https://'' @ gatewayUrl w @ js ''/ipfs/'' @ ipfsHash"

section \<open>PronunciationService\<close>

text \<open>
  A method that writes to the database takes the tables and returns them with its result;
  a rejected promise is \<open>Inl\<close>, and the writes made before it stay. \<open>bindS\<close> is
  \<open>await\<close> followed by the rest of the block.
\<close>

definition bindS ::
  "(db \<Rightarrow> (js_error + 'a) \<times> db) \<Rightarrow> ('a \<Rightarrow> db \<Rightarrow> (js_error + 'b) \<times> db)
     \<Rightarrow> db \<Rightarrow> (js_error + 'b) \<times> db" where
  "bindS m f s = (case m s of (Inl e, s') \<Rightarrow> (Inl e, s') | (Inr x, s') \<Rightarrow> f x s')"

definition readS :: "(db \<Rightarrow> js_error + 'a) \<Rightarrow> db \<Rightarrow> (js_error + 'a) \<times> db" where
  "readS m s = (m s, s)"

definition returnS :: "'a \<Rightarrow> db \<Rightarrow> (js_error + 'a) \<times> db" where
  "returnS x s = (Inr x, s)"

record ipfs_result =
  ir_ipfsHash :: jsstring
  ir_audioUrl :: jsstring

text \<open>
  The row that the insert of \<open>createInitialAttempt\<close> stores: the entity of
  \<open>pronunciationRepository.create\<close>, each value as its column holds it (the user
  identifier in the database's text form, the number 0 as the decimal 0), with the
  identifier and \<open>createdAt\<close> that the insert assigns.
\<close>

definition initial_attempt :: "world \<Rightarrow> CreatePronunciationAttemptRequest \<Rightarrow> PronunciationAttempt" where
  "initial_attempt w request =
     \<lparr>pa_id = generated_id w,
      pa_userId = (case rq_userId request of None \<Rightarrow> None | Some userId \<Rightarrow> uuid_in w userId),
      pa_originalText = rq_originalText request,
      pa_audioFileUrl = [],
      pa_ipfsHash = [],
      pa_analysisResult =
        jsonb (analysis_json
          \<lparr>ar_overallScore = Fin 0,
           ar_toneAccuracy = Fin 0,
           ar_pronunciationErrors = [],
           ar_suggestions = [],
           ar_detailedFeedback = JString []\<rparr>),
      pa_audioMetadata = jsonb (metadata_json (rq_audioMetadata request)),
      pa_overallScore = Decimal 0,
      pa_processingStatus = Pending,
      pa_errorMessage = None,
      pa_createdAt = now w\<rparr>"

definition createInitialAttempt ::
  "world \<Rightarrow> CreatePronunciationAttemptRequest \<Rightarrow> db \<Rightarrow> (js_error + PronunciationAttempt) \<times> db" where
  "createInitialAttempt w request =
     attempts_save w CreateInitialAttempt_save (rq_userId request) (initial_attempt w request)"

text \<open>
  \<open>errorMessage || undefined\<close>: an absent or empty message is \<open>undefined\<close>, and \<open>update\<close>
  leaves a column alone whose value is \<open>undefined\<close>.
\<close>

definition status_patch ::
  "processing_status \<Rightarrow> jsstring option \<Rightarrow> PronunciationAttempt \<Rightarrow> PronunciationAttempt" where
  "status_patch status errorMessage r =
     (case errorMessage of
        None \<Rightarrow> r\<lparr>pa_processingStatus := status\<rparr>
      | Some m \<Rightarrow>
          if m = [] then r\<lparr>pa_processingStatus := status\<rparr>
          else r\<lparr>pa_processingStatus := status, pa_errorMessage := Some m\<rparr>)"

definition updateProcessingStatus ::
  "world \<Rightarrow> jsstring \<Rightarrow> processing_status \<Rightarrow> jsstring option \<Rightarrow> db \<Rightarrow> (js_error + unit) \<times> db" where
  "updateProcessingStatus w attemptId status errorMessage =
     attempts_update w (UpdateProcessingStatus_update status) attemptId
       (Inr (status_patch status errorMessage))"

definition uploadAudioToIPFS ::
  "world \<Rightarrow> 8 word list \<Rightarrow> AudioMetadata \<Rightarrow> jsstring \<Rightarrow> js_error + ipfs_result" where
  "uploadAudioToIPFS w audioBuffer metadata attemptId =
     (case PinataService_uploadAudio w audioBuffer metadata attemptId of
        Inl error \<Rightarrow> Inl (Error (js ''Failed to upload audio file: '' @ message error))
      | Inr uploadResult \<Rightarrow>
          Inr \<lparr>ir_ipfsHash = IpfsHash uploadResult,
               ir_audioUrl = getPublicUrl w (IpfsHash uploadResult)\<rparr>)"

definition ipfs_patch :: "ipfs_result \<Rightarrow> PronunciationAttempt \<Rightarrow> PronunciationAttempt" where
  "ipfs_patch ipfsResult r =
     r\<lparr>pa_ipfsHash := ir_ipfsHash ipfsResult, pa_audioFileUrl := ir_audioUrl ipfsResult\<rparr>"

definition updateAttemptWithIPFS ::
  "world \<Rightarrow> jsstring \<Rightarrow> ipfs_result \<Rightarrow> db \<Rightarrow> (js_error + unit) \<times> db" where
  "updateAttemptWithIPFS w attemptId ipfsResult =
     attempts_update w UpdateAttemptWithIPFS_update attemptId (Inr (ipfs_patch ipfsResult))"

text \<open>\<open>if (userId)\<close> holds for a supplied, non-empty identifier.\<close>

definition performAIAnalysis ::
  "world \<Rightarrow> jsstring \<Rightarrow> jsstring \<Rightarrow> jsstring option \<Rightarrow> db \<Rightarrow> js_error + AnalysisResult" where
  "performAIAnalysis w audioUrl originalText userId s =
     (case bindE (case userId of
                    None \<Rightarrow> Inr None
                  | Some uid \<Rightarrow>
                      if uid = [] then Inr None
                      else users_findOne w PerformAIAnalysis_findOne uid s)
             (\<lambda>user.
                GeminiService_analyzePronunciation w
                  \<lparr>gr_audioUrl = audioUrl,
                   gr_originalText = originalText,
                   gr_userLevel =
                     (case user of None \<Rightarrow> js ''Beginner'' | Some u \<Rightarrow> level_string (u_level u))\<rparr>)
      of
        Inl error \<Rightarrow> Inl (Error (js ''AI analysis failed: '' @ message error))
      | Inr analysisResult \<Rightarrow> Inr analysisResult)"

text \<open>
  The update of \<open>finalizeAnalysis\<close> writes the analysis result to the \<open>jsonb\<close> column, its
  score to the \<open>decimal(3,1)\<close> column, and the status.
\<close>

definition final_patch :: "json \<Rightarrow> decimal \<Rightarrow> PronunciationAttempt \<Rightarrow> PronunciationAttempt" where
  "final_patch analysisResult overallScore r =
     r\<lparr>pa_analysisResult := analysisResult,
       pa_overallScore := overallScore,
       pa_processingStatus := Completed\<rparr>"

definition final_write ::
  "world \<Rightarrow> AnalysisResult \<Rightarrow> db_violation + (PronunciationAttempt \<Rightarrow> PronunciationAttempt)" where
  "final_write w analysisResult =
     (case decimal_3_1 w (ar_overallScore analysisResult) of
        Inl v \<Rightarrow> Inl v
      | Inr overallScore \<Rightarrow> Inr (final_patch (jsonb (analysis_json analysisResult)) overallScore))"

definition finalizeAnalysis ::
  "world \<Rightarrow> jsstring \<Rightarrow> AnalysisResult \<Rightarrow> db \<Rightarrow> (js_error + PronunciationAttempt) \<times> db" where
  "finalizeAnalysis w attemptId analysisResult =
     bindS (attempts_update w FinalizeAnalysis_update attemptId (final_write w analysisResult))
       (\<lambda>_. bindS (readS (attempts_findOne w FinalizeAnalysis_findOne attemptId))
          (\<lambda>finalAttempt s.
             case finalAttempt of
               None \<Rightarrow> (Inl (Error (js ''Failed to retrieve finalized attempt: '' @ attemptId)), s)
             | Some a \<Rightarrow> (Inr a, s)))"

text \<open>
  \<open>user.averageScore || 0\<close>, as the multiplication reads it: a \<open>NULL\<close> average counts as
  0; any other average is the text of the decimal, which is truthy (also \<open>0.0\<close> and
  \<open>NaN\<close>) and is converted to its Number value.
\<close>

definition average_or_zero :: "decimal option \<Rightarrow> jsnum" where
  "average_or_zero a = (case a of None \<Rightarrow> Fin 0 | Some d \<Rightarrow> decimal_to_number d)"

text \<open>\<open>Math.round(newAverageScore * 10) / 10\<close>, every operation on doubles.\<close>

definition new_average :: "User \<Rightarrow> jsnum \<Rightarrow> jsnum" where
  "new_average user newScore =
     (let newTotalAttempts = u_totalAttempts user + 1;
          currentAverage = average_or_zero (u_averageScore user);
          newAverageScore =
            double_div
              (double_add (double_mul currentAverage (Fin (of_int (u_totalAttempts user)))) newScore)
              (Fin (of_int newTotalAttempts))
      in double_div (Math_round (double_mul newAverageScore (Fin 10))) (Fin 10))"

text \<open>
  The update of \<open>updateUserStatistics\<close> writes the new count to the \<open>int\<close> column and the
  new average to the \<open>decimal(3,1)\<close> column.
\<close>

definition statistics_write :: "world \<Rightarrow> User \<Rightarrow> jsnum \<Rightarrow> db_violation + (User \<Rightarrow> User)" where
  "statistics_write w user newScore =
     (let newTotalAttempts = u_totalAttempts user + 1
      in if newTotalAttempts < - 2147483648 \<or> 2147483647 < newTotalAttempts
         then Inl Integer_out_of_range
         else
           case decimal_3_1 w (new_average user newScore) of
             Inl v \<Rightarrow> Inl v
           | Inr averageScore \<Rightarrow>
               Inr (\<lambda>r. r\<lparr>u_totalAttempts := newTotalAttempts, u_averageScore := Some averageScore\<rparr>))"

definition updateUserStatistics ::
  "world \<Rightarrow> jsstring \<Rightarrow> jsnum \<Rightarrow> db \<Rightarrow> (js_error + unit) \<times> db" where
  "updateUserStatistics w userId newScore =
     bindS (readS (users_findOne w UpdateUserStatistics_findOne userId))
       (\<lambda>user.
          case user of
            None \<Rightarrow> returnS ()
          | Some u \<Rightarrow>
              users_update w UpdateUserStatistics_update userId (statistics_write w u newScore))"

definition mapToResponse :: "PronunciationAttempt \<Rightarrow> PronunciationAnalysisResponse" where
  "mapToResponse attempt =
     \<lparr>rs_id = pa_id attempt,
      rs_originalText = pa_originalText attempt,
      rs_audioFileUrl = pa_audioFileUrl attempt,
      rs_analysisResult = pa_analysisResult attempt,
      rs_overallScore = pa_overallScore attempt,
      rs_processingStatus = pa_processingStatus attempt,
      rs_createdAt = pa_createdAt attempt\<rparr>"

text \<open>The \<open>try\<close> block of \<open>analyzePronunciation\<close>, steps 2 to 7.\<close>

definition analyzePronunciation_try ::
  "world \<Rightarrow> CreatePronunciationAttemptRequest \<Rightarrow> PronunciationAttempt \<Rightarrow> db
     \<Rightarrow> (js_error + PronunciationAnalysisResponse) \<times> db" where
  "analyzePronunciation_try w request attempt =
     bindS (updateProcessingStatus w (pa_id attempt) Processing None) (\<lambda>_.
     bindS (readS (\<lambda>_. uploadAudioToIPFS w (rq_audioBuffer request) (rq_audioMetadata request)
                          (pa_id attempt))) (\<lambda>ipfsResult.
     bindS (updateAttemptWithIPFS w (pa_id attempt) ipfsResult) (\<lambda>_.
     bindS (readS (performAIAnalysis w (ir_audioUrl ipfsResult) (rq_originalText request)
                     (rq_userId request))) (\<lambda>analysisResult.
     bindS (finalizeAnalysis w (pa_id attempt) analysisResult) (\<lambda>finalAttempt.
     bindS (case rq_userId request of
              None \<Rightarrow> returnS ()
            | Some userId \<Rightarrow>
                if userId = [] then returnS ()
                else updateUserStatistics w userId (ar_overallScore analysisResult)) (\<lambda>_.
     returnS (mapToResponse finalAttempt)))))))"

text \<open>
  \<open>analyzePronunciation\<close>: the row is created outside the \<open>try\<close>; the \<open>catch\<close> marks the
  row failed with the error's message and rethrows the error, unless its own write is
  rejected, which is then what the caller gets.
\<close>

definition analyzePronunciation ::
  "world \<Rightarrow> CreatePronunciationAttemptRequest \<Rightarrow> db
     \<Rightarrow> (js_error + PronunciationAnalysisResponse) \<times> db" where
  "analyzePronunciation w request =
     bindS (createInitialAttempt w request) (\<lambda>attempt s.
       case analyzePronunciation_try w request attempt s of
         (Inr response, s') \<Rightarrow> (Inr response, s')
       | (Inl error, s') \<Rightarrow>
           bindS (updateProcessingStatus w (pa_id attempt) Failed (Some (message error)))
             (\<lambda>_ s''. (Inl error, s'')) s')"



section \<open>Properties of a run\<close>

text \<open>
  What one call of \<open>analyzePronunciation\<close> added to the history, the successive states
  of the row with a given identifier in it, and their statuses.
\<close>

definition run_history :: "db \<Rightarrow> db \<Rightarrow> PronunciationAttempt list list" where
  "run_history s s' = drop (length (history s)) (history s')"

definition row_trace :: "jsstring \<Rightarrow> db \<Rightarrow> db \<Rightarrow> PronunciationAttempt option list" where
  "row_trace i s s' = map (find (\<lambda>r. pa_id r = i)) (run_history s s')"

definition status_trace :: "jsstring \<Rightarrow> db \<Rightarrow> db \<Rightarrow> processing_status option list" where
  "status_trace i s s' = map (map_option pa_processingStatus) (row_trace i s s')"

definition attempt_row :: "jsstring \<Rightarrow> db \<Rightarrow> PronunciationAttempt option" where
  "attempt_row i s = find (\<lambda>r. pa_id r = i) (attempts s)"

text \<open>The user row with an identifier in the text form of the column.\<close>

definition user_row :: "jsstring \<Rightarrow> db \<Rightarrow> User option" where
  "user_row i s = find (\<lambda>u. u_id u = i) (users s)"

text \<open>The identifier the database generates is not the identifier of a stored row.\<close>

definition fresh_id :: "world \<Rightarrow> db \<Rightarrow> bool" where
  "fresh_id w s = (generated_id w \<notin> pa_id ` set (attempts s))"

text \<open>
  The \<open>overallScore\<close> inside a stored analysis result, and the comparison of a response's
  \<open>overallScore\<close>, which is the text of a decimal, with it, which is a number or \<open>null\<close>:
  equal as numbers.
\<close>

definition analysis_score :: "json \<Rightarrow> json option" where
  "analysis_score doc = (case doc of JObject fs \<Rightarrow> map_of fs (js ''overallScore'') | _ \<Rightarrow> None)"

definition numerically_equal :: "decimal \<Rightarrow> json option \<Rightarrow> bool" where
  "numerically_equal d v =
     (case v of Some (JNumber n) \<Rightarrow> n \<noteq> NaN \<and> decimal_to_number d = n | _ \<Rightarrow> False)"

text \<open>
  A row past \<open>pending\<close> has both upload fields (the first half of the invariant as the
  specification words it), and an upload field that is set keeps its value.
\<close>

definition upload_fields_set :: "PronunciationAttempt option \<Rightarrow> bool" where
  "upload_fields_set x =
     (case x of
        None \<Rightarrow> True
      | Some r \<Rightarrow> pa_processingStatus r \<noteq> Pending \<longrightarrow> pa_audioFileUrl r \<noteq> [] \<and> pa_ipfsHash r \<noteq> [])"

definition keeps_upload_fields :: "PronunciationAttempt option \<Rightarrow> PronunciationAttempt option \<Rightarrow> bool" where
  "keeps_upload_fields x y =
     (case (x, y) of
        (Some a, Some b) \<Rightarrow>
          (pa_audioFileUrl a \<noteq> [] \<longrightarrow> pa_audioFileUrl b = pa_audioFileUrl a) \<and>
          (pa_ipfsHash a \<noteq> [] \<longrightarrow> pa_ipfsHash b = pa_ipfsHash a)
      | _ \<Rightarrow> True)"

fun never_cleared :: "PronunciationAttempt option list \<Rightarrow> bool" where
  "never_cleared [] = True"
| "never_cleared (x # rest) = (list_all (keeps_upload_fields x) rest \<and> never_cleared rest)"

definition completed_has_url :: "world \<Rightarrow> PronunciationAttempt option \<Rightarrow> bool" where
  "completed_has_url w x =
     (case x of
        None \<Rightarrow> True
      | Some r \<Rightarrow>
          pa_processingStatus r = Completed \<longrightarrow>
            pa_audioFileUrl r \<noteq> [] \<and> pa_audioFileUrl r = getPublicUrl w (pa_ipfsHash r))"

text \<open>
  No status follows \<open>completed\<close> or \<open>failed\<close> but itself (the specification's words); and
  the weaker property that nothing but \<open>failed\<close> follows \<open>failed\<close>, and nothing but
  \<open>completed\<close> or \<open>failed\<close> follows \<open>completed\<close>.
\<close>

fun never_leaves_terminal :: "processing_status option list \<Rightarrow> bool" where
  "never_leaves_terminal [] = True"
| "never_leaves_terminal (a # rest) =
     ((a = Some Completed \<or> a = Some Failed \<longrightarrow> list_all (\<lambda>b. b = a) rest)
      \<and> never_leaves_terminal rest)"

fun failed_is_final :: "processing_status option list \<Rightarrow> bool" where
  "failed_is_final [] = True"
| "failed_is_final (a # rest) =
     ((a = Some Failed \<longrightarrow> list_all (\<lambda>b. b = Some Failed) rest)
      \<and> (a = Some Completed \<longrightarrow> list_all (\<lambda>b. b = Some Completed \<or> b = Some Failed) rest)
      \<and> failed_is_final rest)"

text \<open>Rounding to one decimal place, halves upwards, in exact arithmetic.\<close>

definition round_1dp :: "rat \<Rightarrow> rat" where
  "round_1dp x = of_int (round (x * 10)) / 10"

definition in_0_100 :: "jsnum \<Rightarrow> bool" where
  "in_0_100 x = (js_le (Fin 0) x \<and> js_le x (Fin 100))"


text \<open>
  The states of the tables that a run passes through after its writes to the new row
  (create, mark processing, store the upload, finalize), and the states in which a run
  can end: the initial state when the insert is rejected, such a state, such a state with
  the row marked failed, or such a state with a user's statistics updated.
\<close>

inductive stage_state :: "world \<Rightarrow> CreatePronunciationAttemptRequest \<Rightarrow> db \<Rightarrow> db \<Rightarrow> bool"
  for w rq s where
  created: "stage_state w rq s (insert_row (initial_attempt w rq) s)"
| processing:
    "stage_state w rq s
       (patch_rows (generated_id w) (status_patch Processing None)
          (insert_row (initial_attempt w rq) s))"
| uploaded:
    "ir_audioUrl ipfs \<noteq> [] \<Longrightarrow> ir_audioUrl ipfs = getPublicUrl w (ir_ipfsHash ipfs) \<Longrightarrow>
     stage_state w rq s
       (patch_rows (generated_id w) (ipfs_patch ipfs)
          (patch_rows (generated_id w) (status_patch Processing None)
             (insert_row (initial_attempt w rq) s)))"
| finalized:
    "ir_audioUrl ipfs \<noteq> [] \<Longrightarrow> ir_audioUrl ipfs = getPublicUrl w (ir_ipfsHash ipfs) \<Longrightarrow>
     stage_state w rq s
       (patch_rows (generated_id w) (final_patch doc score)
          (patch_rows (generated_id w) (ipfs_patch ipfs)
             (patch_rows (generated_id w) (status_patch Processing None)
                (insert_row (initial_attempt w rq) s))))"

inductive run_end :: "world \<Rightarrow> CreatePronunciationAttemptRequest \<Rightarrow> db \<Rightarrow> db \<Rightarrow> bool"
  for w rq s where
  nothing: "run_end w rq s s"
| reached: "stage_state w rq s t \<Longrightarrow> run_end w rq s t"
| marked_failed:
    "stage_state w rq s t \<Longrightarrow> run_end w rq s (patch_rows (generated_id w) (status_patch Failed m) t)"
| counted: "stage_state w rq s t \<Longrightarrow> run_end w rq s (patch_users u q t)"

text \<open>
  \<open>ends m s E Q\<close>: run from \<open>s\<close>, \<open>m\<close> ends in a state satisfying \<open>E\<close> when it raises
  and in a state satisfying \<open>Q\<close>, with its result, when it returns.
\<close>

definition ends ::
  "(db \<Rightarrow> (js_error + 'a) \<times> db) \<Rightarrow> db \<Rightarrow> (db \<Rightarrow> bool) \<Rightarrow> ('a \<Rightarrow> db \<Rightarrow> bool) \<Rightarrow> bool" where
  "ends m s E Q = (case m s of (Inl e, t) \<Rightarrow> E t | (Inr x, t) \<Rightarrow> Q x t)"

text \<open>Step 7 of the \<open>try\<close> block on its own, and patches that leave the identifier alone.\<close>

definition statistics_step :: "world \<Rightarrow> jsstring option \<Rightarrow> jsnum \<Rightarrow> db \<Rightarrow> (js_error + unit) \<times> db" where
  "statistics_step w userId0 newScore =
     (case userId0 of
        None \<Rightarrow> returnS ()
      | Some userId \<Rightarrow> if userId = [] then returnS () else updateUserStatistics w userId newScore)"

definition keeps_id :: "(PronunciationAttempt \<Rightarrow> PronunciationAttempt) \<Rightarrow> bool" where
  "keeps_id p = (\<forall>r. pa_id (p r) = pa_id r)"

section \<open>Sample inputs\<close>

text \<open>
  Concrete worlds, requests and tables for the instances below. \<open>sample_JSON_parse\<close>,
  \<open>sample_StringToNumber\<close>, \<open>sample_uuid_in\<close> and \<open>sample_Number_toString\<close> agree with the
  platform and the database on the texts and numbers used here: the three identifiers
  are uuids in the form the database returns; a whole number prints as itself, and the
  doubles nearest to 85.55, 65.9 and 78.8 print as these decimals. The errors for the
  violations carry the first words of the database's messages.
\<close>

definition string_score_text :: jsstring where
  \<open>string_score_text = js ''{"overallScore":"abc"}''\<close>

definition fine_score_text :: jsstring where
  \<open>fine_score_text = js ''{"overallScore":85.55}''\<close>

definition sample_JSON_parse :: "jsstring \<Rightarrow> js_error + json" where
  "sample_JSON_parse source =
     (if source = string_score_text then Inr (JObject [(js ''overallScore'', JString (js ''abc''))])
      else if source = fine_score_text
      then Inr (JObject [(js ''overallScore'', JNumber (Number_of (8555 / 100)))])
      else Inl (Error (js ''Unexpected token'')))"

definition sample_StringToNumber :: "jsstring \<Rightarrow> jsnum" where
  "sample_StringToNumber source = (if source = [] then Fin 0 else NaN)"

definition sample_Number_toString :: "rat \<Rightarrow> rat" where
  "sample_Number_toString x =
     (case find (\<lambda>d. Number_of d = Fin x) [8555 / 100, 659 / 10, 788 / 10] of
        Some d \<Rightarrow> d
      | None \<Rightarrow> x)"

definition sample_attempt_id :: jsstring where
  "sample_attempt_id = js ''7c9e6679-7425-40de-944b-e07fc1f90ae7''"

definition sample_user_id :: jsstring where
  "sample_user_id = js ''16fd2706-8baf-433b-82eb-8c7fada847da''"

definition stranger_id :: jsstring where
  "stranger_id = js ''886313e1-3b8a-5372-9b90-0c9aee199e5d''"

definition sample_uuid_in :: "jsstring \<Rightarrow> jsstring option" where
  "sample_uuid_in given =
     (if given = sample_attempt_id \<or> given = sample_user_id \<or> given = stranger_id then Some given
      else None)"

fun sample_violation_error :: "db_violation \<Rightarrow> js_error" where
  "sample_violation_error Invalid_uuid = Error (js ''invalid input syntax for type uuid'')"
| "sample_violation_error Foreign_key = Error (js ''insert or update on table violates foreign key constraint'')"
| "sample_violation_error Numeric_overflow = Error (js ''numeric field overflow'')"
| "sample_violation_error Infinite_numeric = Error (js ''numeric field overflow'')"
| "sample_violation_error Integer_out_of_range = Error (js ''integer out of range'')"

definition sample_metadata :: AudioMetadata where
  "sample_metadata =
     \<lparr>am_duration = Fin 2, am_sampleRate = Fin 44100, am_format = js ''wav'', am_size = Fin 3\<rparr>"

definition sample_request :: CreatePronunciationAttemptRequest where
  "sample_request =
     \<lparr>rq_userId = Some sample_user_id,
      rq_originalText = js ''ni hao'',
      rq_audioBuffer = [1, 2, 3],
      rq_audioMetadata = sample_metadata\<rparr>"

text \<open>The same submission without a user, and for a user that is not stored.\<close>

definition anonymous_request :: CreatePronunciationAttemptRequest where
  "anonymous_request = sample_request\<lparr>rq_userId := None\<rparr>"

definition stranger_request :: CreatePronunciationAttemptRequest where
  "stranger_request = sample_request\<lparr>rq_userId := Some stranger_id\<rparr>"

definition sample_upload :: PinataUploadResponse where
  "sample_upload =
     \<lparr>IpfsHash = js ''Qm1'', PinSize = Fin 3, Timestamp = js ''t0'', isDuplicate = None\<rparr>"

definition healthy_world :: world where
  "healthy_world =
     \<lparr>db_fault = (\<lambda>_. None),
      violation_error = sample_violation_error,
      uuid_in = sample_uuid_in,
      generated_id = sample_attempt_id,
      now = 1000,
      pinata_post = (\<lambda>_ _ _. Inr sample_upload),
      gatewayUrl = js ''gw.example'',
      gemini_post = (\<lambda>_. Inr \<lparr>candidates = [[js ''well done'']]\<rparr>),
      JSON_parse = sample_JSON_parse,
      StringToNumber = sample_StringToNumber,
      ObjectToNumber = (\<lambda>_. Inr NaN),
      Number_toString = sample_Number_toString\<rparr>"

definition upload_down_world :: world where
  "upload_down_world = healthy_world\<lparr>pinata_post := (\<lambda>_ _ _. Inl (Error (js ''timeout'')))\<rparr>"

definition gemini_down_world :: world where
  "gemini_down_world = healthy_world\<lparr>gemini_post := (\<lambda>_. Inl (Error (js ''timeout'')))\<rparr>"

definition statistics_down_world :: world where
  "statistics_down_world =
     healthy_world\<lparr>db_fault :=
       (\<lambda>c. if c = UpdateUserStatistics_update then Some (Error (js ''connection lost'')) else None)\<rparr>"

text \<open>A world in which the model replies with a score of 85.55.\<close>

definition fine_score_world :: world where
  "fine_score_world = healthy_world\<lparr>gemini_post := (\<lambda>_. Inr \<lparr>candidates = [[fine_score_text]]\<rparr>)\<rparr>"

definition fine_score_result :: AnalysisResult where
  "fine_score_result =
     \<lparr>ar_overallScore = Number_of (8555 / 100),
      ar_toneAccuracy = Fin 0,
      ar_pronunciationErrors = [],
      ar_suggestions = [],
      ar_detailedFeedback = JString no_detailed_feedback\<rparr>"

definition sample_ipfs :: ipfs_result where
  "sample_ipfs = \<lparr>ir_ipfsHash = js ''Qm1'', ir_audioUrl = js ''https://gw.example/ipfs/Qm1''\<rparr>"

definition upload_error :: js_error where
  "upload_error = Error (js ''Failed to upload audio file: IPFS upload failed: timeout'')"

definition analysis_error :: js_error where
  "analysis_error = Error (js ''AI analysis failed: AI analysis failed: timeout'')"

definition sample_user :: User where
  "sample_user =
     \<lparr>u_id = sample_user_id,
      u_email = js ''u1@example.org'',
      u_username = js ''u1'',
      u_displayName = None,
      u_level = HSK1,
      u_totalAttempts = 3,
      u_averageScore = Some (Decimal 80),
      u_isActive = True\<rparr>"

text \<open>The same user with an average of 64.6.\<close>

definition boundary_user :: User where
  "boundary_user = sample_user\<lparr>u_averageScore := Some (Decimal (646 / 10))\<rparr>"

definition empty_db :: db where
  "empty_db = \<lparr>attempts = [], users = [], history = []\<rparr>"

definition sample_db :: db where
  "sample_db = \<lparr>attempts = [], users = [sample_user], history = []\<rparr>"

definition boundary_db :: db where
  "boundary_db = \<lparr>attempts = [], users = [boundary_user], history = []\<rparr>"



section \<open>Basic facts\<close>

lemma bindE_simps [simp]:
  "bindE (Inl e) f = Inl e" "bindE (Inr x) f = f x"
  by (simp_all add: bindE_def)

lemma find_patch:
  assumes "\<And>r. key (p r) = key r"
  shows "find (\<lambda>r. key r = i) (map (\<lambda>r. if key r = i then p r else r) xs)
           = map_option p (find (\<lambda>r. key r = i) xs)"
  using assms by (induction xs) auto

lemma find_app:
  "find P (xs @ ys) = (case find P xs of Some x \<Rightarrow> Some x | None \<Rightarrow> find P ys)"
  by (induction xs) auto

lemma find_fresh: "i \<notin> pa_id ` set rows \<Longrightarrow> find (\<lambda>r. pa_id r = i) rows = None"
  by (induction rows) auto

lemma keeps_id_patches [simp]:
  "keeps_id (status_patch st m)" "keeps_id (ipfs_patch ir)" "keeps_id (final_patch doc score)"
  by (auto simp: keeps_id_def status_patch_def ipfs_patch_def final_patch_def split: option.splits)

lemma attempt_row_patch_rows [simp]:
  "keeps_id p \<Longrightarrow> attempt_row i (patch_rows i p s) = map_option p (attempt_row i s)"
  by (simp add: attempt_row_def patch_rows_def Let_def keeps_id_def find_patch [where key = pa_id])

lemma attempt_row_insert_row:
  "attempt_row i (insert_row row s)
     = (case attempt_row i s of
          Some r \<Rightarrow> Some r
        | None \<Rightarrow> if pa_id row = i then Some row else None)"
  by (auto simp: attempt_row_def insert_row_def Let_def find_app split: option.splits)

lemma attempt_row_fresh: "fresh_id w s \<Longrightarrow> attempt_row (generated_id w) s = None"
  by (simp add: fresh_id_def attempt_row_def find_fresh)

lemma attempt_row_patch_users [simp]: "attempt_row i (patch_users u q s) = attempt_row i s"
  by (simp add: attempt_row_def patch_users_def)

lemma history_writes [simp]:
  "history (insert_row row s) = history s @ [attempts (insert_row row s)]"
  "history (patch_rows i p s) = history s @ [attempts (patch_rows i p s)]"
  "history (patch_users u q s) = history s"
  by (simp_all add: insert_row_def patch_rows_def patch_users_def Let_def)

lemma users_writes [simp]:
  "users (insert_row row s) = users s"
  "users (patch_rows i p s) = users s"
  "attempts (patch_users u q s) = attempts s"
  by (simp_all add: insert_row_def patch_rows_def patch_users_def Let_def)

lemma patch_fields [simp]:
  "pa_processingStatus (status_patch st m r) = st"
  "pa_audioFileUrl (status_patch st m r) = pa_audioFileUrl r"
  "pa_ipfsHash (status_patch st m r) = pa_ipfsHash r"
  "pa_analysisResult (status_patch st m r) = pa_analysisResult r"
  "pa_overallScore (status_patch st m r) = pa_overallScore r"
  "pa_processingStatus (ipfs_patch ir r) = pa_processingStatus r"
  "pa_audioFileUrl (ipfs_patch ir r) = ir_audioUrl ir"
  "pa_ipfsHash (ipfs_patch ir r) = ir_ipfsHash ir"
  "pa_processingStatus (final_patch doc score r) = Completed"
  "pa_audioFileUrl (final_patch doc score r) = pa_audioFileUrl r"
  "pa_ipfsHash (final_patch doc score r) = pa_ipfsHash r"
  "pa_analysisResult (final_patch doc score r) = doc"
  "pa_overallScore (final_patch doc score r) = score"
  by (simp_all add: status_patch_def ipfs_patch_def final_patch_def split: option.splits)

lemma initial_fields [simp]:
  "pa_processingStatus (initial_attempt w rq) = Pending"
  "pa_id (initial_attempt w rq) = generated_id w"
  "pa_audioFileUrl (initial_attempt w rq) = []"
  "pa_ipfsHash (initial_attempt w rq) = []"
  "pa_errorMessage (initial_attempt w rq) = None"
  by (simp_all add: initial_attempt_def)

lemma response_fields [simp]:
  "rs_processingStatus (mapToResponse r) = pa_processingStatus r"
  "rs_analysisResult (mapToResponse r) = pa_analysisResult r"
  "rs_overallScore (mapToResponse r) = pa_overallScore r"
  "rs_audioFileUrl (mapToResponse r) = pa_audioFileUrl r"
  by (simp_all add: mapToResponse_def)

lemma analysis_score_stored:
  "analysis_score (jsonb (analysis_json ar)) = Some (jsonb (JNumber (ar_overallScore ar)))"
  by (simp add: analysis_score_def analysis_json_def js_def)

lemma user_reference_users:
  "users s1 = users s \<Longrightarrow> user_reference w u s1 = user_reference w u s"
  by (simp add: user_reference_def split: option.splits)

lemma performAIAnalysis_users:
  "users s1 = users s \<Longrightarrow> performAIAnalysis w a t u s1 = performAIAnalysis w a t u s"
  by (cases u) (auto simp: performAIAnalysis_def users_findOne_def split: option.splits)

lemma performAIAnalysis_writes [simp]:
  "performAIAnalysis w a t u (insert_row row s) = performAIAnalysis w a t u s"
  "performAIAnalysis w a t u (patch_rows i p s) = performAIAnalysis w a t u s"
  by (rule performAIAnalysis_users, simp)+

lemma user_row_writes [simp]:
  "user_row u (insert_row row s) = user_row u s"
  "user_row u (patch_rows i p s) = user_row u s"
  by (simp_all add: user_row_def)

lemmas run_unfold = analyzePronunciation_def analyzePronunciation_try_def createInitialAttempt_def
  updateProcessingStatus_def updateAttemptWithIPFS_def finalizeAnalysis_def final_write_def
  attempts_save_def attempts_update_def attempts_findOne_def
  bindS_def readS_def returnS_def

lemmas statistics_unfold = updateUserStatistics_def users_findOne_def users_update_def

lemma js_nonempty [simp]: "js s = [] \<longleftrightarrow> s = []"
  by (simp add: js_def)

lemma uploadAudioToIPFS_error: "uploadAudioToIPFS w b m i = Inl err \<Longrightarrow> message err \<noteq> []"
  by (auto simp: uploadAudioToIPFS_def split: sum.splits)

lemma uploadAudioToIPFS_url:
  "uploadAudioToIPFS w b m i = Inr ipfs \<Longrightarrow>
     ir_audioUrl ipfs \<noteq> [] \<and> ir_audioUrl ipfs = getPublicUrl w (ir_ipfsHash ipfs)"
  by (auto simp: uploadAudioToIPFS_def getPublicUrl_def split: sum.splits)

lemma performAIAnalysis_error: "performAIAnalysis w a t u s = Inl err \<Longrightarrow> message err \<noteq> []"
  by (auto simp: performAIAnalysis_def split: sum.splits)

lemma status_patch_message:
  "m \<noteq> [] \<Longrightarrow> status_patch st (Some m) r = r\<lparr>pa_processingStatus := st, pa_errorMessage := Some m\<rparr>"
  by (simp add: status_patch_def)

lemma run_history_simps [simp]:
  "run_history s (insert_row row s1) = run_history s s1 @ drop (length (history s) - length (history s1)) [attempts (insert_row row s1)]"
  "run_history s (patch_rows i p s1) = run_history s s1 @ drop (length (history s) - length (history s1)) [attempts (patch_rows i p s1)]"
  "run_history s (patch_users u q s1) = run_history s s1"
  "run_history s s = []"
  by (simp_all add: run_history_def)

lemma updateUserStatistics_fails:
  assumes "fst (updateUserStatistics w userId newScore s) = Inl err" and "users s1 = users s"
  shows "updateUserStatistics w userId newScore s1 = (Inl err, s1)"
  using assms
  by (auto simp: statistics_unfold bindS_def readS_def returnS_def split: option.splits sum.splits)

lemma updateUserStatistics_missing_user:
  assumes "db_fault w UpdateUserStatistics_findOne = None"
    and "uuid_in w userId = Some u" and "user_row u s = None"
  shows "updateUserStatistics w userId newScore s = (Inr (), s)"
  using assms
  by (simp add: statistics_unfold bindS_def readS_def returnS_def user_row_def)

lemma updateUserStatistics_frame:
  assumes "users s1 = users s"
  shows "fst (updateUserStatistics w userId newScore s1) = fst (updateUserStatistics w userId newScore s)
       \<and> attempts (snd (updateUserStatistics w userId newScore s1)) = attempts s1
       \<and> history (snd (updateUserStatistics w userId newScore s1)) = history s1"
  using assms
  by (auto simp: statistics_unfold bindS_def readS_def returnS_def patch_users_def
      split: option.splits sum.splits)

lemma statistics_step_frame:
  assumes "users s1 = users s"
  shows "fst (statistics_step w userId0 newScore s1) = fst (statistics_step w userId0 newScore s)
       \<and> attempts (snd (statistics_step w userId0 newScore s1)) = attempts s1
       \<and> history (snd (statistics_step w userId0 newScore s1)) = history s1"
  using updateUserStatistics_frame [OF assms]
  by (auto simp: statistics_step_def returnS_def split: option.splits)

lemma statistics_step_returns:
  assumes "fst (statistics_step w userId0 newScore s) = Inr ()" and "users s1 = users s"
  shows "\<exists>s2. statistics_step w userId0 newScore s1 = (Inr (), s2)
           \<and> attempts s2 = attempts s1 \<and> history s2 = history s1"
proof -
  obtain r s2 where run: "statistics_step w userId0 newScore s1 = (r, s2)"
    by (cases "statistics_step w userId0 newScore s1")
  with statistics_step_frame [OF assms(2), of w userId0 newScore] assms(1) show ?thesis
    by simp
qed

lemma try_success:
  assumes ok: "\<forall>c. db_fault w c = None"
    and ref: "user_reference w (rq_userId rq) s = Inr u"
    and up: "uploadAudioToIPFS w (rq_audioBuffer rq) (rq_audioMetadata rq) (generated_id w) = Inr ipfs"
    and ai: "performAIAnalysis w (ir_audioUrl ipfs) (rq_originalText rq) (rq_userId rq) s = Inr ar"
    and score: "decimal_3_1 w (ar_overallScore ar) = Inr d"
    and x: "attempt_row (generated_id w) (insert_row (initial_attempt w rq) s) = Some x"
    and st: "statistics_step w (rq_userId rq) (ar_overallScore ar)
       (patch_rows (generated_id w) (final_patch (jsonb (analysis_json ar)) d)
          (patch_rows (generated_id w) (ipfs_patch ipfs)
             (patch_rows (generated_id w) (status_patch Processing None)
                (insert_row (initial_attempt w rq) s))))
       = (Inr (), s4)"
  shows "analyzePronunciation w rq s =
     (Inr (mapToResponse
        (final_patch (jsonb (analysis_json ar)) d (ipfs_patch ipfs (status_patch Processing None x)))), s4)"
proof -
  have found: "find (\<lambda>r. pa_id r = generated_id w)
          (attempts (patch_rows (generated_id w) (final_patch (jsonb (analysis_json ar)) d)
             (patch_rows (generated_id w) (ipfs_patch ipfs)
                (patch_rows (generated_id w) (status_patch Processing None)
                   (insert_row (initial_attempt w rq) s)))))
        = Some (final_patch (jsonb (analysis_json ar)) d (ipfs_patch ipfs (status_patch Processing None x)))"
    using x attempt_row_patch_rows by (simp add: attempt_row_def [symmetric])
  show ?thesis
    using ok ref up ai score found st
    by (simp add: run_unfold statistics_step_def [symmetric])
qed

lemma round_scale_1_fixed:
  assumes "of_int k = v * 10"
  shows "round_scale_1 v = v"
proof -
  have v: "v = of_int k / 10"
    using assms by simp
  have half: "\<lfloor>(of_int j :: rat) + 1 / 2\<rfloor> = j" for j
    by (rule floor_unique) simp_all
  show ?thesis
    using half [of k] half [of "- k"] by (simp add: round_scale_1_def v)
qed

text \<open>
  What the two columns hold for a score that is not a number, and for a score of 100: NaN
  is stored in the score column and as \<open>null\<close> in the document, which are not equal as
  numbers; 100 does not fit the score column, so the final update is rejected.
\<close>

lemma nan_score_stored:
  assumes "ar_overallScore ar = NaN"
  shows "final_write w ar = Inr (final_patch (jsonb (analysis_json ar)) Decimal_NaN)"
    and "analysis_score (jsonb (analysis_json ar)) = Some JNull"
    and "\<not> numerically_equal Decimal_NaN (analysis_score (jsonb (analysis_json ar)))"
  using assms
  by (simp_all add: final_write_def decimal_3_1_def analysis_score_stored numerically_equal_def)

lemma perfect_score_refused:
  assumes "ar_overallScore ar = Fin 100" and "Number_toString w 100 = 100"
    and "db_fault w FinalizeAnalysis_update = None"
  shows "finalizeAnalysis w i ar s = (Inl (violation_error w Numeric_overflow), s)"
proof -
  have "round_scale_1 100 = 100"
    by (rule round_scale_1_fixed [of 1000]) simp
  then have "final_write w ar = Inl Numeric_overflow"
    using assms(1,2) by (simp add: final_write_def decimal_3_1_def)
  then show ?thesis
    using assms(3) by (simp add: finalizeAnalysis_def attempts_update_def bindS_def)
qed

lemma Math_clamp_range:
  "Math_max (Fin 0) (Math_min (Fin 100) n) = NaN \<or> in_0_100 (Math_max (Fin 0) (Math_min (Fin 100) n))"
  by (cases n) (auto simp: Math_max_def Math_min_def in_0_100_def)

lemma clamp_score_range:
  "clamp_score w v = Inr x \<Longrightarrow> x = NaN \<or> in_0_100 x"
  using Math_clamp_range
  by (auto simp: clamp_score_def bindE_def split: sum.splits)

lemma parse_try_range:
  assumes "parseAnalysisResult_try w response = Inr (Some r)"
  shows "(ar_overallScore r = NaN \<or> in_0_100 (ar_overallScore r))
       \<and> (ar_toneAccuracy r = NaN \<or> in_0_100 (ar_toneAccuracy r))"
  using assms
  by (auto simp: parseAnalysisResult_try_def bindE_def split: option.splits sum.splits dest: clamp_score_range)

lemma parseAnalysisResult_range:
  "(ar_overallScore (parseAnalysisResult w response) = NaN \<or> in_0_100 (ar_overallScore (parseAnalysisResult w response)))
   \<and> (ar_toneAccuracy (parseAnalysisResult w response) = NaN \<or> in_0_100 (ar_toneAccuracy (parseAnalysisResult w response)))"
proof (cases "parseAnalysisResult_try w response")
  case (Inl e)
  then show ?thesis by (simp add: parseAnalysisResult_def fallback_result_def in_0_100_def)
next
  case (Inr x)
  show ?thesis
  proof (cases x)
    case None
    with Inr show ?thesis by (simp add: parseAnalysisResult_def fallback_result_def in_0_100_def)
  next
    case (Some r)
    with Inr parse_try_range [of w response r] show ?thesis by (simp add: parseAnalysisResult_def)
  qed
qed

lemma parseAnalysisResult_fallback:
  assumes "jsonMatch response = None \<or> (\<exists>m e. jsonMatch response = Some m \<and> JSON_parse w m = Inl e)"
  shows "parseAnalysisResult w response = fallback_result response"
  using assms by (auto simp: parseAnalysisResult_def parseAnalysisResult_try_def)

lemma parseAnalysisResult_nan_score:
  assumes "jsonMatch response = Some m"
    and "JSON_parse w m = Inr (JObject props)"
    and "map_of props (js ''overallScore'') = Some (JString v)" and "v \<noteq> []"
    and "StringToNumber w v = NaN"
    and "clamp_score w (map_of props (js ''toneAccuracy'')) = Inr tone"
  shows "ar_overallScore (parseAnalysisResult w response) = NaN"
  using assms
  by (simp add: parseAnalysisResult_def parseAnalysisResult_try_def clamp_score_def js_or_def
      Math_max_def Math_min_def)

lemma jsonMatch_string_score: "jsonMatch string_score_text = Some string_score_text"
  by (simp add: jsonMatch_def string_score_text_def js_def LBRACE_def RBRACE_def)




section \<open>Runs of the workflow\<close>

lemmas trace_unfold = status_trace_def row_trace_def run_history_def

lemma run_statistics_failure:
  assumes f1: "db_fault w CreateInitialAttempt_save = None"
    and f2: "db_fault w (UpdateProcessingStatus_update Processing) = None"
    and f3: "db_fault w UpdateAttemptWithIPFS_update = None"
    and f4: "db_fault w FinalizeAnalysis_update = None"
    and f5: "db_fault w FinalizeAnalysis_findOne = None"
    and f6: "db_fault w (UpdateProcessingStatus_update Failed) = None"
    and ref: "user_reference w (rq_userId rq) s = Inr u"
    and up: "uploadAudioToIPFS w (rq_audioBuffer rq) (rq_audioMetadata rq) (generated_id w) = Inr ipfs"
    and ai: "performAIAnalysis w (ir_audioUrl ipfs) (rq_originalText rq) (rq_userId rq) s = Inr ar"
    and score: "decimal_3_1 w (ar_overallScore ar) = Inr d"
    and uid: "rq_userId rq = Some userId" "userId \<noteq> []"
    and st: "fst (updateUserStatistics w userId (ar_overallScore ar) s) = Inl err"
  shows "analyzePronunciation w rq s =
     (Inl err,
      patch_rows (generated_id w) (status_patch Failed (Some (message err)))
        (patch_rows (generated_id w) (final_patch (jsonb (analysis_json ar)) d)
          (patch_rows (generated_id w) (ipfs_patch ipfs)
            (patch_rows (generated_id w) (status_patch Processing None)
              (insert_row (initial_attempt w rq) s)))))"
proof -
  let ?i = "generated_id w"
  let ?s0 = "insert_row (initial_attempt w rq) s"
  let ?s3 = "patch_rows ?i (final_patch (jsonb (analysis_json ar)) d) (patch_rows ?i (ipfs_patch ipfs)
               (patch_rows ?i (status_patch Processing None) ?s0))"
  obtain x where x: "attempt_row ?i ?s0 = Some x"
    by (cases "attempt_row ?i s") (auto simp: attempt_row_insert_row)
  have found: "find (\<lambda>r. pa_id r = ?i) (attempts ?s3)
                 = Some (final_patch (jsonb (analysis_json ar)) d
                           (ipfs_patch ipfs (status_patch Processing None x)))"
    using attempt_row_patch_rows by (simp add: x attempt_row_def [symmetric])
  have st3: "updateUserStatistics w userId (ar_overallScore ar) ?s3 = (Inl err, ?s3)"
    using st by (rule updateUserStatistics_fails) simp
  show ?thesis
    using f1 f2 f3 f4 f5 f6 ref up ai score uid found st3 by (simp add: run_unfold)
qed

lemma trace_of_five_writes:
  assumes "fresh_id w s"
  shows "status_trace (generated_id w) s
     (patch_rows (generated_id w) (status_patch Failed m)
        (patch_rows (generated_id w) (final_patch doc d)
          (patch_rows (generated_id w) (ipfs_patch ipfs)
            (patch_rows (generated_id w) (status_patch Processing None)
              (insert_row (initial_attempt w rq) s)))))
     = [Some Pending, Some Processing, Some Processing, Some Completed, Some Failed]"
  using attempt_row_fresh [OF assms]
  by (simp add: trace_unfold attempt_row_insert_row attempt_row_def [symmetric])

lemma row_trace_same_history:
  "history s1 = history s2 \<Longrightarrow> row_trace i s s1 = row_trace i s s2"
  by (simp add: trace_unfold)

lemma trace_of_four_writes:
  assumes "fresh_id w s"
  shows "row_trace (generated_id w) s
     (patch_rows (generated_id w) (final_patch doc d)
        (patch_rows (generated_id w) (ipfs_patch ipfs)
          (patch_rows (generated_id w) (status_patch Processing None)
            (insert_row (initial_attempt w rq) s))))
     = [Some (initial_attempt w rq),
        Some (status_patch Processing None (initial_attempt w rq)),
        Some (ipfs_patch ipfs (status_patch Processing None (initial_attempt w rq))),
        Some (final_patch doc d (ipfs_patch ipfs (status_patch Processing None (initial_attempt w rq))))]"
  using attempt_row_fresh [OF assms]
  by (simp add: trace_unfold attempt_row_insert_row attempt_row_def [symmetric])

lemma success_trace:
  assumes ok: "\<forall>c. db_fault w c = None"
    and ref: "user_reference w (rq_userId rq) s = Inr u"
    and up: "uploadAudioToIPFS w (rq_audioBuffer rq) (rq_audioMetadata rq) (generated_id w) = Inr ipfs"
    and ai: "performAIAnalysis w (ir_audioUrl ipfs) (rq_originalText rq) (rq_userId rq) s = Inr ar"
    and score: "decimal_3_1 w (ar_overallScore ar) = Inr d"
    and st: "fst (statistics_step w (rq_userId rq) (ar_overallScore ar) s) = Inr ()"
    and fresh: "fresh_id w s"
  shows "row_trace (generated_id w) s (snd (analyzePronunciation w rq s))
     = [Some (initial_attempt w rq),
        Some (status_patch Processing None (initial_attempt w rq)),
        Some (ipfs_patch ipfs (status_patch Processing None (initial_attempt w rq))),
        Some (final_patch (jsonb (analysis_json ar)) d
               (ipfs_patch ipfs (status_patch Processing None (initial_attempt w rq))))]"
proof -
  let ?i = "generated_id w"
  let ?s3 = "patch_rows ?i (final_patch (jsonb (analysis_json ar)) d) (patch_rows ?i (ipfs_patch ipfs)
               (patch_rows ?i (status_patch Processing None) (insert_row (initial_attempt w rq) s)))"
  have x: "attempt_row ?i (insert_row (initial_attempt w rq) s) = Some (initial_attempt w rq)"
    using attempt_row_fresh [OF fresh] by (simp add: attempt_row_insert_row)
  have "users ?s3 = users s"
    by simp
  from statistics_step_returns [OF st this]
  obtain s4 where s4: "statistics_step w (rq_userId rq) (ar_overallScore ar) ?s3 = (Inr (), s4)"
    and same: "history s4 = history ?s3"
    by blast
  have "snd (analyzePronunciation w rq s) = s4"
    using try_success [OF ok ref up ai score x s4] by simp
  then show ?thesis
    using row_trace_same_history [OF same] trace_of_four_writes [OF fresh] by simp
qed

lemma ends_bindS:
  assumes "ends m s E (\<lambda>x t. ends (f x) t E Q)"
  shows "ends (bindS m f) s E Q"
  using assms by (auto simp: ends_def bindS_def split: prod.splits sum.splits)

lemma ends_update:
  assumes "E s" and "Q () (patch_rows i p s)"
  shows "ends (attempts_update w c i (Inr p)) s E Q"
  using assms by (cases "db_fault w c") (simp_all add: ends_def attempts_update_def)

lemma ends_readS:
  assumes "\<And>e. m s = Inl e \<Longrightarrow> E s" and "\<And>x. m s = Inr x \<Longrightarrow> Q x s"
  shows "ends (readS m) s E Q"
  using assms by (cases "m s") (simp_all add: ends_def readS_def)

lemma ends_returnS: "Q x s \<Longrightarrow> ends (returnS x) s E Q"
  by (simp add: ends_def returnS_def)

lemma ends_finalizeAnalysis:
  assumes "E s" and "\<And>doc d. E (patch_rows i (final_patch doc d) s)"
    and "\<And>doc d a. Q a (patch_rows i (final_patch doc d) s)"
  shows "ends (finalizeAnalysis w i ar) s E Q"
  using assms
  by (auto simp: ends_def finalizeAnalysis_def final_write_def bindS_def readS_def
      attempts_update_def attempts_findOne_def split: option.splits sum.splits)

lemma ends_updateUserStatistics:
  assumes "E s" and "Q () s" and "\<And>u q. Q () (patch_users u q s)"
  shows "ends (updateUserStatistics w userId sc) s E Q"
  using assms
  by (auto simp: ends_def updateUserStatistics_def bindS_def readS_def returnS_def
      users_findOne_def users_update_def split: option.splits sum.splits)

lemma ends_statistics_step:
  assumes "E s" and "Q () s" and "\<And>u q. Q () (patch_users u q s)"
  shows "ends (case userId0 of None \<Rightarrow> returnS ()
               | Some userId \<Rightarrow> if userId = [] then returnS () else updateUserStatistics w userId sc) s E Q"
  using assms by (auto split: option.splits intro: ends_returnS ends_updateUserStatistics)

lemma try_ends:
  "ends (analyzePronunciation_try w rq (initial_attempt w rq)) (insert_row (initial_attempt w rq) s)
     (stage_state w rq s) (\<lambda>_. run_end w rq s)"
  unfolding analyzePronunciation_try_def updateProcessingStatus_def updateAttemptWithIPFS_def
  apply (simp only: initial_fields)
  apply (rule ends_bindS, rule ends_update, rule stage_state.created)
  apply (rule ends_bindS, rule ends_readS, rule stage_state.processing)
  apply (drule uploadAudioToIPFS_url, erule conjE)
  apply (rule ends_bindS, rule ends_update, rule stage_state.processing)
  apply (rule ends_bindS, rule ends_readS, erule (1) stage_state.uploaded)
  apply (rule ends_bindS, rule ends_finalizeAnalysis, erule (1) stage_state.uploaded, erule (1) stage_state.finalized)
  apply (rule ends_bindS, rule ends_statistics_step, erule (1) stage_state.finalized)
    apply (rule ends_returnS, rule run_end.reached, erule (1) stage_state.finalized)
   apply (rule ends_returnS, rule run_end.counted, erule (1) stage_state.finalized)
  done

lemma run_end_analyzePronunciation: "run_end w rq s (snd (analyzePronunciation w rq s))"
proof (cases "fst (createInitialAttempt w rq s)")
  case (Inl e)
  then have "createInitialAttempt w rq s = (Inl e, s)"
    by (auto simp: createInitialAttempt_def attempts_save_def split: option.splits sum.splits)
  then show ?thesis
    by (simp add: analyzePronunciation_def bindS_def run_end.nothing)
next
  case (Inr a)
  let ?r0 = "initial_attempt w rq"
  from Inr have created: "createInitialAttempt w rq s = (Inr ?r0, insert_row ?r0 s)"
    by (auto simp: createInitialAttempt_def attempts_save_def split: option.splits sum.splits)
  obtain r t where t: "analyzePronunciation_try w rq ?r0 (insert_row ?r0 s) = (r, t)"
    by (cases "analyzePronunciation_try w rq ?r0 (insert_row ?r0 s)")
  show ?thesis
  proof (cases r)
    case (Inr resp)
    with try_ends [of w rq s] t have "run_end w rq s t"
      by (simp add: ends_def)
    with created t Inr show ?thesis
      by (simp add: analyzePronunciation_def bindS_def)
  next
    case (Inl e)
    with try_ends [of w rq s] t have stage: "stage_state w rq s t"
      by (simp add: ends_def)
    show ?thesis
    proof (cases "db_fault w (UpdateProcessingStatus_update Failed)")
      case (Some e2)
      with created t Inl stage show ?thesis
        by (simp add: analyzePronunciation_def bindS_def
            updateProcessingStatus_def attempts_update_def run_end.reached)
    next
      case None
      with created t Inl stage show ?thesis
        by (simp add: analyzePronunciation_def bindS_def
            updateProcessingStatus_def attempts_update_def run_end.marked_failed)
    qed
  qed
qed

lemma trace_nothing [simp]: "row_trace i s s = []" "status_trace i s s = []"
  by (simp_all add: trace_unfold)

lemma failed_is_final_stage:
  assumes "fresh_id w s" and "stage_state w rq s t"
  shows "failed_is_final (status_trace (generated_id w) s t)
    \<and> failed_is_final (status_trace (generated_id w) s
           (patch_rows (generated_id w) (status_patch Failed m) t))
    \<and> failed_is_final (status_trace (generated_id w) s (patch_users u q t))"
  using assms(2) attempt_row_fresh [OF assms(1)]
  by cases (simp_all add: trace_unfold attempt_row_insert_row attempt_row_def [symmetric])

lemma upload_fields_stage:
  assumes "fresh_id w s" and "stage_state w rq s t"
  shows "(never_cleared (row_trace (generated_id w) s t)
       \<and> list_all (completed_has_url w) (row_trace (generated_id w) s t))
    \<and> (never_cleared (row_trace (generated_id w) s
           (patch_rows (generated_id w) (status_patch Failed m) t))
       \<and> list_all (completed_has_url w) (row_trace (generated_id w) s
           (patch_rows (generated_id w) (status_patch Failed m) t)))
    \<and> (never_cleared (row_trace (generated_id w) s (patch_users u q t))
       \<and> list_all (completed_has_url w) (row_trace (generated_id w) s (patch_users u q t)))"
  using assms(2) attempt_row_fresh [OF assms(1)]
  by cases (simp_all add: trace_unfold attempt_row_insert_row attempt_row_def [symmetric]
        keeps_upload_fields_def completed_has_url_def)

section \<open>Facts about doubles\<close>

text \<open>
  \<open>floor_log2\<close> does not exceed the binary logarithm, and the rounding to an integer stays
  within a half. So the rounding of a quotient of whole numbers below \<open>2 ^ 53\<close> to a
  double does not change its ceiling: the page count of the listing is the same on the
  rounded and on the exact quotient.
\<close>

lemma bit_length_bounds:
  "0 < n \<Longrightarrow> 2 ^ (bit_length n - 1) \<le> n \<and> n < 2 ^ bit_length n"
proof (induction n rule: bit_length.induct)
  case (1 n)
  show ?case
  proof (cases "n div 2 = 0")
    case True
    with 1(2) have "n = 1"
      by (simp add: div_eq_0_iff)
    then show ?thesis
      by (simp add: bit_length.simps)
  next
    case False
    with 1 have ih: "2 ^ (bit_length (n div 2) - 1) \<le> n div 2" "n div 2 < 2 ^ bit_length (n div 2)"
      by simp_all
    have pos: "0 < bit_length (n div 2)"
      using False by (simp add: bit_length.simps [of "n div 2"])
    have bl: "bit_length n = Suc (bit_length (n div 2))"
      using 1(2) by (simp add: bit_length.simps [of n])
    have "2 ^ (bit_length n - 1) = 2 * 2 ^ (bit_length (n div 2) - 1)"
      using pos by (simp add: bl flip: power_Suc)
    also have "\<dots> \<le> 2 * (n div 2)"
      using ih(1) by simp
    also have "\<dots> \<le> n"
      by simp
    finally have low: "2 ^ (bit_length n - 1) \<le> n" .
    have "n < 2 * (n div 2) + 2"
      by presburger
    also have "\<dots> \<le> 2 * 2 ^ bit_length (n div 2)"
      using ih(2) by simp
    finally have "n < 2 ^ bit_length n"
      by (simp add: bl)
    with low show ?thesis ..
  qed
qed

lemma floor_log2_lower:
  assumes "0 < x"
  shows "pow2 (floor_log2 x) \<le> x"
proof (cases "1 \<le> x")
  case True
  let ?n = "nat \<lfloor>x\<rfloor>"
  have n: "0 < ?n"
    using True by simp
  have "(2 :: nat) ^ (bit_length ?n - 1) \<le> ?n"
    using bit_length_bounds [OF n] by simp
  then have "(of_nat (2 ^ (bit_length ?n - 1)) :: rat) \<le> of_nat ?n"
    by (rule of_nat_mono)
  also have "\<dots> \<le> x"
    using True by (simp add: of_nat_nat)
  finally have le: "(2 :: rat) ^ (bit_length ?n - 1) \<le> x"
    by simp
  have b: "0 < bit_length ?n"
    using n by (simp add: bit_length.simps [of ?n])
  then have e: "floor_log2 x = int (bit_length ?n - 1)"
    using True by (simp add: floor_log2_def)
  show ?thesis
    using le by (simp add: e pow2_def)
next
  case False
  let ?m = "nat (\<lceil>1 / x\<rceil> - 1)"
  have inv: "1 < 1 / x"
    using assms False by simp
  then have c2: "2 \<le> \<lceil>1 / x\<rceil>"
    by (simp add: le_ceiling_iff less_ceiling_iff)
  then have m: "0 < ?m"
    by simp
  have "?m < 2 ^ bit_length ?m"
    using bit_length_bounds [OF m] by simp
  then have "int ?m < 2 ^ bit_length ?m"
    by (metis of_nat_less_iff of_nat_numeral of_nat_power)
  moreover have "int ?m = \<lceil>1 / x\<rceil> - 1"
    using c2 by linarith
  ultimately have "\<lceil>1 / x\<rceil> \<le> 2 ^ bit_length ?m"
    by linarith
  then have "1 / x \<le> of_int (2 ^ bit_length ?m)"
    by (simp only: ceiling_le_iff)
  then have "1 / x \<le> 2 ^ bit_length ?m"
    by simp
  then have le: "1 / 2 ^ bit_length ?m \<le> x"
    using assms by (simp add: field_simps)
  have b: "0 < bit_length ?m"
    using m by (simp add: bit_length.simps [of ?m])
  have e: "floor_log2 x = - int (bit_length ?m)"
    using False by (simp add: floor_log2_def)
  show ?thesis
    using le b by (simp add: e pow2_def)
qed

lemma round_half_even_le:
  assumes "y \<le> of_int m"
  shows "round_half_even y \<le> m"
proof (cases "y = of_int m")
  case True
  then show ?thesis
    by (simp add: round_half_even_def)
next
  case False
  with assms have "y < of_int m"
    by simp
  then have "\<lfloor>y\<rfloor> < m"
    by (simp add: floor_less_iff)
  then show ?thesis
    by (simp add: round_half_even_def Let_def)
qed

lemma round_half_even_gt:
  assumes "of_int k + 1 / 2 < y"
  shows "k < round_half_even y"
proof -
  have k: "k \<le> \<lfloor>y\<rfloor>"
    using assms by (simp add: le_floor_iff)
  show ?thesis
  proof (cases "k = \<lfloor>y\<rfloor>")
    case True
    with assms have "1 / 2 < y - of_int \<lfloor>y\<rfloor>"
      by simp
    then show ?thesis
      using True by (simp add: round_half_even_def Let_def)
  next
    case False
    with k have "k < \<lfloor>y\<rfloor>"
      by simp
    then show ?thesis
      by (simp add: round_half_even_def Let_def)
  qed
qed

lemma pow2_powi: "pow2 k = 2 powi k"
  by (simp add: pow2_def power_int_def power_one_over)

lemma pow2_mono: "a \<le> b \<Longrightarrow> pow2 a \<le> pow2 b"
  unfolding pow2_powi by (intro power_int_increasing) simp_all

lemma pow2_add: "pow2 (a + b) = pow2 a * pow2 b"
  unfolding pow2_powi by (simp add: power_int_add)

lemma pow2_pos: "0 < pow2 k"
  unfolding pow2_powi by simp

lemma page_count_rounding:
  assumes t: "count < 2 ^ 53" and l1: "1 \<le> limit" and l2: "limit \<le> 2 ^ 53"
  shows "Math_ceil (double_div (Fin (of_nat count)) (Fin (of_int limit)))
       = Math_ceil (js_div (Fin (of_nat count)) (Fin (of_int limit)))"
proof (cases "count = 0")
  case True
  then show ?thesis
    using l1 by (simp add: Number_of_def)
next
  case False
  define x :: rat where "x = of_nat count / of_int limit"
  define e where "e = max (floor_log2 x) (- 1022)"
  define q where "q = pow2 (e - 52)"
  define m where "m = round_half_even (x / q)"
  define k where "k = \<lceil>x\<rceil> - 1"
  define n where "n = nat (52 - e)"
  have lpos: "(0 :: rat) < of_int limit"
    using l1 by simp
  have xpos: "0 < x"
    using False lpos by (simp add: x_def)
  have kx: "of_int k < x" "x \<le> of_int k + 1"
    unfolding k_def by linarith+
  have k0: "0 \<le> k"
    using xpos by (simp add: k_def)
  have "x \<le> of_nat count"
  proof -
    have "of_nat count / of_int limit \<le> (of_nat count / 1 :: rat)"
      using l1 by (intro divide_left_mono) simp_all
    then show ?thesis
      by (simp add: x_def)
  qed
  also have "(of_nat count :: rat) < of_nat (2 ^ 53)"
    using t by (simp only: of_nat_less_iff)
  finally have x53: "x < 2 ^ 53"
    by simp
  have f52: "floor_log2 x \<le> 52"
  proof (rule ccontr)
    assume "\<not> floor_log2 x \<le> 52"
    then have "pow2 53 \<le> pow2 (floor_log2 x)"
      by (intro pow2_mono) simp
    with floor_log2_lower [OF xpos] x53 show False
      by (simp add: pow2_def)
  qed
  then have e52: "e \<le> 52"
    by (simp add: e_def)
  have q_eq: "q = 1 / 2 ^ n"
  proof (cases "e = 52")
    case True
    then show ?thesis
      by (simp add: q_def n_def pow2_def)
  next
    case False
    with e52 have "e - 52 < 0"
      by simp
    then show ?thesis
      by (simp add: q_def n_def pow2_def)
  qed
  have qpos: "0 < q"
    by (simp add: q_def pow2_pos)
  have xq: "x / q = x * 2 ^ n"
    by (simp add: q_eq)
  have "x * 2 ^ n \<le> (of_int k + 1) * 2 ^ n"
    using kx(2) by (intro mult_right_mono) simp_all
  then have "x / q \<le> of_int ((k + 1) * 2 ^ n)"
    by (simp add: xq)
  then have m_le: "m \<le> (k + 1) * 2 ^ n"
    unfolding m_def by (rule round_half_even_le)
  have gap: "1 / of_int limit \<le> x - of_int k"
  proof -
    have "of_int k * of_int limit < (of_nat count :: rat)"
      using kx(1) lpos by (simp add: x_def pos_less_divide_eq)
    then have "(of_int (k * limit) :: rat) < of_int (int count)"
      by simp
    then have "k * limit < int count"
      by (simp only: of_int_less_iff)
    then have "1 \<le> int count - k * limit"
      by simp
    then have "(of_int 1 :: rat) \<le> of_int (int count - k * limit)"
      by (simp only: of_int_le_iff)
    then have "1 \<le> (of_nat count :: rat) - of_int k * of_int limit"
      by simp
    then have "1 / of_int limit \<le> ((of_nat count :: rat) - of_int k * of_int limit) / of_int limit"
      using lpos by (intro divide_right_mono) simp_all
    also have "\<dots> = x - of_int k"
      using lpos by (simp add: x_def diff_divide_distrib)
    finally show ?thesis .
  qed
  have l53: "(of_int limit :: rat) \<le> 2 ^ 53"
  proof -
    have "(of_int limit :: rat) \<le> of_int (2 ^ 53)"
      using l2 by (simp only: of_int_le_iff)
    then show ?thesis
      by simp
  qed
  have half: "q / 2 < 1 / of_int limit"
  proof (cases "- 1022 \<le> floor_log2 x")
    case True
    then have e: "e = floor_log2 x"
      by (simp add: e_def)
    have "pow2 e = pow2 (e - 52 + 52)"
      by simp
    also have "\<dots> = q * 2 ^ 52"
      unfolding pow2_add by (simp add: q_def pow2_def)
    finally have "q * 2 ^ 52 \<le> x"
      using floor_log2_lower [OF xpos] by (simp add: e)
    then have "q * 2 ^ 52 / 2 ^ 53 \<le> x / 2 ^ 53"
      by (intro divide_right_mono) simp_all
    moreover have "q * 2 ^ 52 / 2 ^ 53 = q / 2"
      by (simp only: power_Suc [of 2 52, simplified] flip: times_divide_eq_right) simp
    ultimately have "q / 2 \<le> x / 2 ^ 53"
      by simp
    also have "\<dots> = of_nat count / 2 ^ 53 / of_int limit"
      by (simp add: x_def)
    also have "\<dots> < 1 / of_int limit"
    proof -
      have "(of_nat count :: rat) < of_nat (2 ^ 53)"
        using t by (simp only: of_nat_less_iff)
      then have "(of_nat count :: rat) / 2 ^ 53 < 1"
        by simp
      then show ?thesis
        using lpos by (intro divide_strict_right_mono) simp_all
    qed
    finally show ?thesis .
  next
    case False
    then have e: "e = - 1022"
      by (simp add: e_def)
    have "q = 1 / 2 ^ 1074"
      by (simp only: q_def e pow2_def) simp
    then have "q / 2 = 1 / 2 ^ Suc 1074"
      by (simp only: power_Suc) simp
    also have "\<dots> < (1 / 2 ^ 53 :: rat)"
      by (intro divide_strict_left_mono power_strict_increasing mult_pos_pos zero_less_power) simp_all
    also have "\<dots> \<le> 1 / of_int limit"
      using lpos l53 by (intro divide_left_mono mult_pos_pos zero_less_power) simp_all
    finally show ?thesis .
  qed
  have "(of_int k + q / 2) < x"
    using gap half by simp
  then have "(of_int k + q / 2) / q < x / q"
    using qpos by (intro divide_strict_right_mono) simp_all
  moreover have "(of_int k + q / 2) / q = of_int (k * 2 ^ n) + 1 / 2"
    using qpos by (simp add: add_divide_distrib) (simp add: q_eq)
  ultimately have "of_int (k * 2 ^ n) + 1 / 2 < x / q"
    by simp
  then have m_gt: "k * 2 ^ n < m"
    unfolding m_def by (rule round_half_even_gt)
  define r where "r = of_int m * q"
  have r_eq: "r = of_int m / 2 ^ n"
    by (simp add: r_def q_eq)
  have "(of_int (k * 2 ^ n) :: rat) < of_int m"
    using m_gt by (simp only: of_int_less_iff)
  then have r_gt: "of_int k < r"
    by (simp add: r_eq pos_less_divide_eq)
  have "(of_int m :: rat) \<le> of_int ((k + 1) * 2 ^ n)"
    using m_le by (simp only: of_int_le_iff)
  then have r_le: "r \<le> of_int k + 1"
    by (simp add: r_eq pos_divide_le_eq)
  have ceil_r: "\<lceil>r\<rceil> = k + 1"
    using r_gt r_le by (intro ceiling_unique) simp_all
  have ceil_x: "\<lceil>x\<rceil> = k + 1"
    by (simp add: k_def)
  have "r \<le> x + 1"
    using r_le kx(1) by simp
  also have "\<dots> < 2 ^ 53 + 1"
    using x53 by simp
  also have "\<dots> \<le> (2 ^ 53 + 2 ^ 53 :: rat)"
    by (intro add_left_mono one_le_power) simp
  also have "\<dots> = 2 ^ Suc 53"
    by (simp only: power_Suc)
  also have "\<dots> \<le> (2 ^ 1024 :: rat)"
    by (intro power_increasing) simp_all
  finally have "r < 2 ^ 1024" .
  moreover have "pow2 1024 = 2 ^ 1024"
    by (simp only: pow2_def) simp
  ultimately have "r < pow2 1024"
    by (simp only:)
  moreover have "(0 :: rat) \<le> of_int k"
    using k0 by simp
  then have "0 < r"
    using r_gt by linarith
  ultimately have small: "\<not> pow2 1024 \<le> \<bar>r\<bar>"
    by simp
  have "Number_of x = Fin r"
    using xpos small
    by (simp add: Number_of_def Let_def e_def [symmetric] q_def [symmetric] m_def [symmetric]
        r_def [symmetric])
  then have "double_div (Fin (of_nat count)) (Fin (of_int limit)) = Fin r"
    using lpos by (simp add: x_def)
  then show ?thesis
    using lpos by (simp add: Math_ceil_def ceil_r ceil_x [unfolded x_def])
qed

section \<open>Facts about the sample inputs\<close>

lemma floor_rat_numeral:
  "\<lfloor>numeral a / numeral b :: rat\<rfloor> = numeral a div numeral b"
  "\<lfloor>- numeral a / numeral b :: rat\<rfloor> = - numeral a div numeral b"
  by (metis floor_divide_of_int_eq of_int_numeral of_int_minus)+

lemma ceiling_rat_numeral:
  "\<lceil>numeral a / numeral b :: rat\<rceil> = - (- numeral a div numeral b)"
  by (metis ceiling_divide_eq_div of_int_numeral)

lemmas Number_unfold = Number_of_def floor_log2_def bit_length.simps round_half_even_def pow2_def
  Let_def floor_rat_numeral ceiling_rat_numeral

text \<open>The doubles nearest to 85.55, 65.9, 78.8, 64.6 and 85.6.\<close>

lemma Number_of_samples:
  "Number_of (1711 / 20) = Fin (6020046064399155 / 70368744177664)"
  "Number_of (659 / 10) = Fin (2318650120654029 / 35184372088832)"
  "Number_of (394 / 5) = Fin (5545057041199923 / 70368744177664)"
  "Number_of (323 / 5) = Fin (2272910436938547 / 35184372088832)"
  "Number_of (428 / 5) = Fin (3011782250804019 / 35184372088832)"
  by (simp_all add: Number_unfold)

lemma sample_Number_toString_values:
  "sample_Number_toString 75 = 75"
  "sample_Number_toString (6020046064399155 / 70368744177664) = 1711 / 20"
  "sample_Number_toString (2318650120654029 / 35184372088832) = 659 / 10"
  "sample_Number_toString (5545057041199923 / 70368744177664) = 394 / 5"
  "sample_Number_toString (165 / 2) = 165 / 2"
  by (simp_all add: sample_Number_toString_def Number_of_samples)

lemma round_scale_1_samples:
  "round_scale_1 75 = 75" "round_scale_1 (1711 / 20) = 428 / 5" "round_scale_1 (659 / 10) = 659 / 10"
  "round_scale_1 (394 / 5) = 394 / 5" "round_scale_1 (165 / 2) = 165 / 2"
  by (simp_all add: round_scale_1_def floor_rat_numeral)

text \<open>
  The average that \<open>updateUserStatistics\<close> computes: from 3 attempts averaging 80 and a
  score of 90 it is 82.5, and with a score of 75 it is 78.8; from 3 attempts averaging
  64.6 and a score of 70 it is 65.9, the product \<open>64.6 * 3\<close> being the double
  193.79999999999998.
\<close>

lemma new_average_samples:
  "new_average sample_user (Fin 90) = Fin (165 / 2)"
  "new_average sample_user (Fin 75) = Fin (5545057041199923 / 70368744177664)"
  "new_average boundary_user (Fin 70) = Fin (2318650120654029 / 35184372088832)"
  by (simp_all add: new_average_def boundary_user_def sample_user_def average_or_zero_def
      decimal_to_number_def Math_round_def Number_unfold)

lemma sample_ids:
  "sample_user_id \<noteq> []" "stranger_id \<noteq> []"
  "stranger_id \<noteq> sample_user_id" "sample_user_id \<noteq> stranger_id"
  "sample_uuid_in sample_user_id = Some sample_user_id"
  "sample_uuid_in stranger_id = Some stranger_id"
  by (simp_all add: sample_uuid_in_def sample_user_id_def stranger_id_def js_def)

lemma sample_worlds:
  "db_fault healthy_world c = None"
  "db_fault upload_down_world c = None"
  "db_fault gemini_down_world c = None"
  "db_fault fine_score_world c = None"
  "c \<noteq> UpdateUserStatistics_update \<Longrightarrow> db_fault statistics_down_world c = None"
  "db_fault statistics_down_world UpdateUserStatistics_update = Some (Error (js ''connection lost''))"
  "uuid_in healthy_world = sample_uuid_in"
  "uuid_in upload_down_world = sample_uuid_in"
  "uuid_in gemini_down_world = sample_uuid_in"
  "uuid_in fine_score_world = sample_uuid_in"
  "uuid_in statistics_down_world = sample_uuid_in"
  "generated_id healthy_world = sample_attempt_id"
  "generated_id upload_down_world = sample_attempt_id"
  "generated_id gemini_down_world = sample_attempt_id"
  "generated_id fine_score_world = sample_attempt_id"
  "generated_id statistics_down_world = sample_attempt_id"
  "Number_toString healthy_world = sample_Number_toString"
  "Number_toString fine_score_world = sample_Number_toString"
  "Number_toString statistics_down_world = sample_Number_toString"
  "violation_error healthy_world = sample_violation_error"
  by (simp_all add: healthy_world_def upload_down_world_def gemini_down_world_def
      statistics_down_world_def fine_score_world_def)

lemma sample_requests:
  "rq_userId sample_request = Some sample_user_id"
  "rq_userId anonymous_request = None"
  "rq_userId stranger_request = Some stranger_id"
  "rq_audioBuffer anonymous_request = rq_audioBuffer sample_request"
  "rq_audioMetadata anonymous_request = rq_audioMetadata sample_request"
  "rq_originalText anonymous_request = rq_originalText sample_request"
  by (simp_all add: sample_request_def anonymous_request_def stranger_request_def)

lemma sample_upload_result:
  assumes "pinata_post w = (\<lambda>_ _ _. Inr sample_upload)" and "gatewayUrl w = js ''gw.example''"
  shows "uploadAudioToIPFS w b m i = Inr sample_ipfs"
  using assms
  by (simp add: uploadAudioToIPFS_def PinataService_uploadAudio_def sample_upload_def
      sample_ipfs_def getPublicUrl_def js_def)

lemma healthy_upload:
  "uploadAudioToIPFS healthy_world b m i = Inr sample_ipfs"
  "uploadAudioToIPFS gemini_down_world b m i = Inr sample_ipfs"
  "uploadAudioToIPFS statistics_down_world b m i = Inr sample_ipfs"
  "uploadAudioToIPFS fine_score_world b m i = Inr sample_ipfs"
  by (rule sample_upload_result;
      simp add: healthy_world_def gemini_down_world_def statistics_down_world_def fine_score_world_def)+

lemma jsonMatch_well_done: "jsonMatch (js ''well done'') = None"
  by (simp add: jsonMatch_def js_def LBRACE_def)

lemma fallback_analysis:
  assumes "db_fault w PerformAIAnalysis_findOne = None" and "uuid_in w = sample_uuid_in"
    and "gemini_post w = (\<lambda>_. Inr \<lparr>candidates = [[js ''well done'']]\<rparr>)"
  shows "performAIAnalysis w a t (Some sample_user_id) s = Inr (fallback_result (js ''well done''))"
proof -
  have "GeminiService_analyzePronunciation w g = Inr (fallback_result (js ''well done''))" for g
    using assms(3)
    by (simp add: GeminiService_analyzePronunciation_def parseAnalysisResult_def
        parseAnalysisResult_try_def jsonMatch_well_done)
  then show ?thesis
    using assms(1,2) by (simp add: performAIAnalysis_def users_findOne_def sample_ids)
qed

lemma healthy_analysis:
  "performAIAnalysis healthy_world a t (Some sample_user_id) s = Inr (fallback_result (js ''well done''))"
  "performAIAnalysis statistics_down_world a t (Some sample_user_id) s
     = Inr (fallback_result (js ''well done''))"
proof -
  show "performAIAnalysis healthy_world a t (Some sample_user_id) s = Inr (fallback_result (js ''well done''))"
    by (rule fallback_analysis) (simp_all add: sample_worlds, simp add: healthy_world_def)
  show "performAIAnalysis statistics_down_world a t (Some sample_user_id) s
     = Inr (fallback_result (js ''well done''))"
    by (rule fallback_analysis)
       (simp_all add: sample_worlds, simp add: statistics_down_world_def healthy_world_def)
qed

lemma fallback_score: "ar_overallScore (fallback_result t) = Fin 75"
  by (simp add: fallback_result_def)

lemma jsonMatch_fine_score: "jsonMatch fine_score_text = Some fine_score_text"
  by (simp add: jsonMatch_def fine_score_text_def js_def LBRACE_def RBRACE_def)

lemma fine_score_analysis:
  "performAIAnalysis fine_score_world a t None s = Inr fine_score_result"
proof -
  have differ: "fine_score_text \<noteq> string_score_text"
    by (simp add: fine_score_text_def string_score_text_def js_def)
  have "parseAnalysisResult fine_score_world fine_score_text = fine_score_result"
    by (simp add: parseAnalysisResult_def parseAnalysisResult_try_def jsonMatch_fine_score
        fine_score_world_def healthy_world_def sample_JSON_parse_def differ clamp_score_def js_or_def
        Math_max_def Math_min_def fine_score_result_def Number_of_samples array_or_empty_def js_def)
  then have "GeminiService_analyzePronunciation fine_score_world g = Inr fine_score_result" for g
    by (simp add: GeminiService_analyzePronunciation_def)
       (simp add: fine_score_world_def healthy_world_def)
  then show ?thesis
    by (simp add: performAIAnalysis_def)
qed

lemma sample_reference:
  assumes "uuid_in w = sample_uuid_in"
  shows "user_reference w (Some sample_user_id) sample_db = Inr (Some sample_user_id)"
    and "user_reference w (Some stranger_id) sample_db = Inl Foreign_key"
    and "user_reference w None s = Inr None"
  using assms
  by (simp_all add: user_reference_def sample_ids sample_db_def sample_user_def)

lemma sample_decimals:
  assumes "Number_toString w = sample_Number_toString"
  shows "decimal_3_1 w (Fin 75) = Inr (Decimal 75)"
    and "decimal_3_1 w (Fin (6020046064399155 / 70368744177664)) = Inr (Decimal (428 / 5))"
    and "decimal_3_1 w (Fin (2318650120654029 / 35184372088832)) = Inr (Decimal (659 / 10))"
    and "decimal_3_1 w (Fin (5545057041199923 / 70368744177664)) = Inr (Decimal (394 / 5))"
    and "decimal_3_1 w (Fin (165 / 2)) = Inr (Decimal (165 / 2))"
  using assms
  by (simp_all add: decimal_3_1_def sample_Number_toString_values round_scale_1_samples)

lemma sample_user_rows:
  "user_row sample_user_id sample_db = Some sample_user"
  "user_row sample_user_id boundary_db = Some boundary_user"
  "user_row stranger_id sample_db = None"
  "u_id sample_user = sample_user_id" "u_id boundary_user = sample_user_id"
  "u_totalAttempts sample_user = 3" "u_totalAttempts boundary_user = 3"
  "u_averageScore sample_user = Some (Decimal 80)"
  "u_averageScore boundary_user = Some (Decimal (646 / 10))"
  by (simp_all add: user_row_def sample_db_def boundary_db_def sample_user_def boundary_user_def
      sample_ids)

lemma sample_statistics:
  "updateUserStatistics healthy_world sample_user_id (Fin 90) sample_db
     = (Inr (),
        patch_users sample_user_id
          (\<lambda>r. r\<lparr>u_totalAttempts := 4, u_averageScore := Some (Decimal (165 / 2))\<rparr>) sample_db)"
  "updateUserStatistics healthy_world sample_user_id (Fin 75) sample_db
     = (Inr (),
        patch_users sample_user_id
          (\<lambda>r. r\<lparr>u_totalAttempts := 4, u_averageScore := Some (Decimal (394 / 5))\<rparr>) sample_db)"
  "updateUserStatistics healthy_world sample_user_id (Fin 70) boundary_db
     = (Inr (),
        patch_users sample_user_id
          (\<lambda>r. r\<lparr>u_totalAttempts := 4, u_averageScore := Some (Decimal (659 / 10))\<rparr>) boundary_db)"
  using sample_user_rows(1,2)
  by (simp_all add: statistics_unfold bindS_def readS_def sample_worlds sample_ids user_row_def
      statistics_write_def new_average_samples sample_decimals sample_user_rows(6,7))

lemma statistics_down_update:
  "fst (updateUserStatistics statistics_down_world sample_user_id sc sample_db)
     = Inl (Error (js ''connection lost''))"
  using sample_user_rows(1)
  by (simp add: statistics_unfold bindS_def readS_def sample_worlds sample_ids user_row_def)

lemma fresh_sample [simp]: "fresh_id w sample_db" "fresh_id w empty_db"
  by (simp_all add: fresh_id_def sample_db_def empty_db_def)


section \<open>The claims\<close>

text \<open>
  Claim C1. As stated the claim fails: the response is made from the row read back after the
  final update, whose score column is \<open>decimal(3,1)\<close>, so its \<open>overallScore\<close> is the score
  rounded to one fractional digit, while its \<open>analysisResult\<close> holds the score as it was
  analysed; a score of 85.55 comes back as 85.6 beside 85.55. What holds: when every call
  is accepted, the score being a finite number that the column holds (below 100 after
  rounding), the response and the row are \<open>completed\<close>, the \<open>overallScore\<close> of the
  stored analysis result is the score, and the \<open>overallScore\<close> beside it is the decimal
  that prints the score, rounded to one fractional digit, halves away from zero; the two
  are equal as numbers when that decimal has no more than one fractional digit.
\<close>

theorem completed_score_is_rounded:
  assumes ok: "\<forall>c. db_fault w c = None"
    and ref: "user_reference w (rq_userId rq) s = Inr u"
    and up: "uploadAudioToIPFS w (rq_audioBuffer rq) (rq_audioMetadata rq) (generated_id w) = Inr ipfs"
    and ai: "performAIAnalysis w (ir_audioUrl ipfs) (rq_originalText rq) (rq_userId rq) s = Inr ar"
    and score: "ar_overallScore ar = Fin x"
    and fits: "\<bar>round_scale_1 (Number_toString w x)\<bar> < 100"
    and st: "fst (statistics_step w (rq_userId rq) (ar_overallScore ar) s) = Inr ()"
  shows "\<exists>resp s' row. analyzePronunciation w rq s = (Inr resp, s')
     \<and> rs_processingStatus resp = Completed
     \<and> analysis_score (rs_analysisResult resp) = Some (JNumber (Fin x))
     \<and> rs_overallScore resp = Decimal (round_scale_1 (Number_toString w x))
     \<and> (Number_of (Number_toString w x) = Fin x
          \<and> round_scale_1 (Number_toString w x) = Number_toString w x
          \<longrightarrow> numerically_equal (rs_overallScore resp) (analysis_score (rs_analysisResult resp)))
     \<and> attempt_row (generated_id w) s' = Some row
     \<and> pa_processingStatus row = Completed
     \<and> pa_overallScore row = rs_overallScore resp
     \<and> pa_analysisResult row = rs_analysisResult resp"
proof -
  let ?i = "generated_id w"
  let ?d = "Decimal (round_scale_1 (Number_toString w x))"
  let ?doc = "jsonb (analysis_json ar)"
  let ?s3 = "patch_rows ?i (final_patch ?doc ?d) (patch_rows ?i (ipfs_patch ipfs)
               (patch_rows ?i (status_patch Processing None) (insert_row (initial_attempt w rq) s)))"
  have conv: "decimal_3_1 w (ar_overallScore ar) = Inr ?d"
    using score fits by (simp add: decimal_3_1_def Let_def)
  obtain x0 where x0: "attempt_row ?i (insert_row (initial_attempt w rq) s) = Some x0"
    by (cases "attempt_row ?i s") (auto simp: attempt_row_insert_row)
  let ?row = "final_patch ?doc ?d (ipfs_patch ipfs (status_patch Processing None x0))"
  have row: "attempt_row ?i ?s3 = Some ?row"
    using x0 by simp
  have "users ?s3 = users s"
    by simp
  from statistics_step_returns [OF st this]
  obtain s4 where s4: "statistics_step w (rq_userId rq) (ar_overallScore ar) ?s3 = (Inr (), s4)"
    and same: "attempts s4 = attempts ?s3"
    by blast
  have run: "analyzePronunciation w rq s = (Inr (mapToResponse ?row), s4)"
    using try_success [OF ok ref up ai conv x0 s4] .
  have row4: "attempt_row ?i s4 = Some ?row"
    using row same by (simp add: attempt_row_def)
  have stored: "analysis_score ?doc = Some (JNumber (Fin x))"
    by (simp add: analysis_score_stored score)
  have equal: "numerically_equal ?d (Some (JNumber (Fin x)))"
    if "Number_of (Number_toString w x) = Fin x"
      and "round_scale_1 (Number_toString w x) = Number_toString w x"
    using that by (simp add: numerically_equal_def decimal_to_number_def)
  show ?thesis
    using run row4 stored equal by simp
qed

theorem completed_score_is_rounded_witness:
  "(\<forall>c. db_fault healthy_world c = None)
   \<and> user_reference healthy_world (rq_userId sample_request) sample_db = Inr (Some sample_user_id)
   \<and> uploadAudioToIPFS healthy_world (rq_audioBuffer sample_request) (rq_audioMetadata sample_request)
        (generated_id healthy_world) = Inr sample_ipfs
   \<and> performAIAnalysis healthy_world (ir_audioUrl sample_ipfs) (rq_originalText sample_request)
        (rq_userId sample_request) sample_db = Inr (fallback_result (js ''well done''))
   \<and> ar_overallScore (fallback_result (js ''well done'')) = Fin 75
   \<and> \<bar>round_scale_1 (Number_toString healthy_world 75)\<bar> < 100
   \<and> fst (statistics_step healthy_world (rq_userId sample_request)
             (ar_overallScore (fallback_result (js ''well done''))) sample_db) = Inr ()
   \<and> Number_of (Number_toString healthy_world 75) = Fin 75
   \<and> round_scale_1 (Number_toString healthy_world 75) = Number_toString healthy_world 75
   \<and> (\<exists>resp s'. analyzePronunciation healthy_world sample_request sample_db = (Inr resp, s')
         \<and> rs_processingStatus resp = Completed
         \<and> analysis_score (rs_analysisResult resp) = Some (JNumber (Fin 75))
         \<and> rs_overallScore resp = Decimal 75
         \<and> numerically_equal (rs_overallScore resp) (analysis_score (rs_analysisResult resp)))"
proof -
  have h1: "\<forall>c. db_fault healthy_world c = None"
    by (simp add: sample_worlds)
  have h2: "user_reference healthy_world (rq_userId sample_request) sample_db = Inr (Some sample_user_id)"
    by (simp add: sample_requests sample_reference sample_worlds)
  note h3 = healthy_upload(1)
  have h4: "performAIAnalysis healthy_world (ir_audioUrl sample_ipfs) (rq_originalText sample_request)
        (rq_userId sample_request) sample_db = Inr (fallback_result (js ''well done''))"
    by (simp add: sample_requests healthy_analysis)
  note h5 = fallback_score
  have print: "Number_toString healthy_world 75 = 75"
    by (simp add: sample_worlds sample_Number_toString_values)
  have h6: "\<bar>round_scale_1 (Number_toString healthy_world 75)\<bar> < 100"
    by (simp add: print round_scale_1_samples)
  have h7: "fst (statistics_step healthy_world (rq_userId sample_request)
             (ar_overallScore (fallback_result (js ''well done''))) sample_db) = Inr ()"
    by (simp add: statistics_step_def sample_requests sample_ids fallback_score sample_statistics)
  have h8: "Number_of (Number_toString healthy_world 75) = Fin 75"
    by (simp add: print Number_unfold)
  have h9: "round_scale_1 (Number_toString healthy_world 75) = Number_toString healthy_world 75"
    by (simp add: print round_scale_1_samples)
  from completed_score_is_rounded [OF h1 h2 h3 h4 h5 h6 h7]
  have "\<exists>resp s'. analyzePronunciation healthy_world sample_request sample_db = (Inr resp, s')
         \<and> rs_processingStatus resp = Completed
         \<and> analysis_score (rs_analysisResult resp) = Some (JNumber (Fin 75))
         \<and> rs_overallScore resp = Decimal 75
         \<and> numerically_equal (rs_overallScore resp) (analysis_score (rs_analysisResult resp))"
    using h8 h9 by (simp add: print round_scale_1_samples) blast
  then show ?thesis
    using h1 h2 h3 h4 h5 h6 h7 h8 h9 by simp
qed

theorem rounded_score_differs:
  "(\<forall>c. db_fault fine_score_world c = None)
   \<and> uploadAudioToIPFS fine_score_world (rq_audioBuffer anonymous_request)
        (rq_audioMetadata anonymous_request) (generated_id fine_score_world) = Inr sample_ipfs
   \<and> performAIAnalysis fine_score_world (ir_audioUrl sample_ipfs) (rq_originalText anonymous_request)
        (rq_userId anonymous_request) empty_db = Inr fine_score_result
   \<and> ar_overallScore fine_score_result = Number_of (8555 / 100)
   \<and> (\<exists>resp s'. analyzePronunciation fine_score_world anonymous_request empty_db = (Inr resp, s')
         \<and> rs_processingStatus resp = Completed
         \<and> analysis_score (rs_analysisResult resp) = Some (JNumber (Number_of (8555 / 100)))
         \<and> rs_overallScore resp = Decimal (856 / 10)
         \<and> decimal_to_number (rs_overallScore resp) = Number_of (856 / 10)
         \<and> Number_of (856 / 10) \<noteq> Number_of (8555 / 100)
         \<and> \<not> numerically_equal (rs_overallScore resp) (analysis_score (rs_analysisResult resp)))"
proof -
  let ?w = fine_score_world
  let ?i = "generated_id ?w"
  let ?doc = "jsonb (analysis_json fine_score_result)"
  let ?d = "Decimal (428 / 5)"
  let ?s0 = "insert_row (initial_attempt ?w anonymous_request) empty_db"
  let ?s3 = "patch_rows ?i (final_patch ?doc ?d) (patch_rows ?i (ipfs_patch sample_ipfs)
               (patch_rows ?i (status_patch Processing None) ?s0))"
  have ok: "\<forall>c. db_fault ?w c = None"
    by (simp add: sample_worlds)
  have ref: "user_reference ?w (rq_userId anonymous_request) empty_db = Inr None"
    by (simp add: sample_requests sample_reference sample_worlds)
  note up = healthy_upload(4) [of "rq_audioBuffer anonymous_request" "rq_audioMetadata anonymous_request" ?i]
  have ai: "performAIAnalysis ?w (ir_audioUrl sample_ipfs) (rq_originalText anonymous_request)
        (rq_userId anonymous_request) empty_db = Inr fine_score_result"
    by (simp add: sample_requests(2) fine_score_analysis)
  have score: "ar_overallScore fine_score_result = Fin (6020046064399155 / 70368744177664)"
    by (simp add: fine_score_result_def Number_of_samples)
  have conv: "decimal_3_1 ?w (ar_overallScore fine_score_result) = Inr ?d"
    by (simp add: score sample_decimals sample_worlds)
  have x: "attempt_row ?i ?s0 = Some (initial_attempt ?w anonymous_request)"
    using attempt_row_fresh [OF fresh_sample(2), of ?w] by (simp add: attempt_row_insert_row)
  have st: "statistics_step ?w (rq_userId anonymous_request) (ar_overallScore fine_score_result) ?s3
              = (Inr (), ?s3)"
    by (simp add: statistics_step_def sample_requests returnS_def)
  note run = try_success [OF ok ref up ai conv x st]
  have stored: "analysis_score ?doc = Some (JNumber (Fin (6020046064399155 / 70368744177664)))"
    by (simp add: analysis_score_stored score)
  show ?thesis
    using ok up ai
    by (simp add: run stored score numerically_equal_def decimal_to_number_def Number_of_samples)
qed

text \<open>
  Claim C2. When the upload step fails, the generated identifier being new and the database
  accepting the insert and the writes before the upload and the write of the failure
  handler, \<open>analyzePronunciation\<close> raises the upload error, and the row ends \<open>failed\<close>,
  with the non-empty message of the error, and with \<open>audioFileUrl\<close> and \<open>ipfsHash\<close> still
  empty.
\<close>

theorem upload_failure_marks_failed:
  assumes fresh: "fresh_id w s"
    and f1: "db_fault w CreateInitialAttempt_save = None"
    and ref: "user_reference w (rq_userId rq) s = Inr u"
    and f2: "db_fault w (UpdateProcessingStatus_update Processing) = None"
    and f3: "db_fault w (UpdateProcessingStatus_update Failed) = None"
    and up: "uploadAudioToIPFS w (rq_audioBuffer rq) (rq_audioMetadata rq) (generated_id w) = Inl err"
  shows "\<exists>s' row. analyzePronunciation w rq s = (Inl err, s')
     \<and> attempt_row (generated_id w) s' = Some row
     \<and> pa_processingStatus row = Failed
     \<and> pa_errorMessage row = Some (message err) \<and> message err \<noteq> []
     \<and> pa_audioFileUrl row = [] \<and> pa_ipfsHash row = []"
proof -
  let ?i = "generated_id w"
  let ?r0 = "initial_attempt w rq"
  let ?s' = "patch_rows ?i (status_patch Failed (Some (message err)))
               (patch_rows ?i (status_patch Processing None) (insert_row ?r0 s))"
  have msg: "message err \<noteq> []"
    using up by (rule uploadAudioToIPFS_error)
  have run: "analyzePronunciation w rq s = (Inl err, ?s')"
    using f1 ref f2 f3 up by (simp add: run_unfold)
  let ?row = "status_patch Failed (Some (message err)) (status_patch Processing None ?r0)"
  have row: "attempt_row ?i ?s' = Some ?row"
    using attempt_row_fresh [OF fresh] by (simp add: attempt_row_insert_row)
  have fields: "pa_processingStatus ?row = Failed" "pa_errorMessage ?row = Some (message err)"
    "pa_audioFileUrl ?row = []" "pa_ipfsHash ?row = []"
    using msg by (simp_all add: status_patch_message)
  show ?thesis
    using run row fields msg by blast
qed

theorem upload_failure_marks_failed_witness:
  "fresh_id upload_down_world sample_db
   \<and> db_fault upload_down_world CreateInitialAttempt_save = None
   \<and> user_reference upload_down_world (rq_userId sample_request) sample_db = Inr (Some sample_user_id)
   \<and> db_fault upload_down_world (UpdateProcessingStatus_update Processing) = None
   \<and> db_fault upload_down_world (UpdateProcessingStatus_update Failed) = None
   \<and> uploadAudioToIPFS upload_down_world (rq_audioBuffer sample_request)
        (rq_audioMetadata sample_request) (generated_id upload_down_world) = Inl upload_error
   \<and> (\<exists>s' row. analyzePronunciation upload_down_world sample_request sample_db = (Inl upload_error, s')
         \<and> attempt_row sample_attempt_id s' = Some row
         \<and> pa_processingStatus row = Failed
         \<and> pa_errorMessage row = Some (js ''Failed to upload audio file: IPFS upload failed: timeout'')
         \<and> pa_audioFileUrl row = [] \<and> pa_ipfsHash row = [])"
proof -
  note f = sample_worlds(2)
  have ref: "user_reference upload_down_world (rq_userId sample_request) sample_db = Inr (Some sample_user_id)"
    by (simp add: sample_requests sample_reference sample_worlds)
  have up: "uploadAudioToIPFS upload_down_world (rq_audioBuffer sample_request)
        (rq_audioMetadata sample_request) (generated_id upload_down_world) = Inl upload_error"
    by (simp add: uploadAudioToIPFS_def PinataService_uploadAudio_def upload_down_world_def
        healthy_world_def upload_error_def js_def)
  note i = sample_worlds(13)
  show ?thesis
    using upload_failure_marks_failed [OF fresh_sample(1) f ref f f up] f ref up
    by (simp add: i upload_error_def)
qed

text \<open>
  Claim C3. As stated the claim fails: the status \<open>processing\<close> is written before the upload,
  so a row is \<open>processing\<close> with both upload fields empty until step 4 writes them.
  What holds in every run: an upload field that is set keeps its value through every
  later write, the failure handler's included, and a \<open>completed\<close> row has a non-empty
  \<open>audioFileUrl\<close>, the public address of its \<open>ipfsHash\<close>.
\<close>

theorem upload_fields_kept:
  assumes fresh: "fresh_id w s"
  shows "never_cleared (row_trace (generated_id w) s (snd (analyzePronunciation w rq s)))
       \<and> list_all (completed_has_url w) (row_trace (generated_id w) s (snd (analyzePronunciation w rq s)))"
  using run_end_analyzePronunciation [of w rq s]
  by cases (simp_all add: upload_fields_stage [OF fresh])

theorem upload_fields_kept_witness:
  "fresh_id healthy_world sample_db
   \<and> never_cleared
       (row_trace (generated_id healthy_world) sample_db
          (snd (analyzePronunciation healthy_world sample_request sample_db)))
   \<and> list_all (completed_has_url healthy_world)
       (row_trace (generated_id healthy_world) sample_db
          (snd (analyzePronunciation healthy_world sample_request sample_db)))"
  using upload_fields_kept [OF fresh_sample(1), of healthy_world sample_request] fresh_sample(1)
  by simp

theorem processing_row_without_upload_fields:
  "row_trace sample_attempt_id sample_db (snd (analyzePronunciation healthy_world sample_request sample_db)) ! 1
     = Some ((initial_attempt healthy_world sample_request)\<lparr>pa_processingStatus := Processing\<rparr>)
   \<and> pa_audioFileUrl ((initial_attempt healthy_world sample_request)\<lparr>pa_processingStatus := Processing\<rparr>) = []
   \<and> pa_ipfsHash ((initial_attempt healthy_world sample_request)\<lparr>pa_processingStatus := Processing\<rparr>) = []
   \<and> \<not> list_all upload_fields_set
         (row_trace sample_attempt_id sample_db (snd (analyzePronunciation healthy_world sample_request sample_db)))"
proof -
  note i = sample_worlds(12)
  have ok: "\<forall>c. db_fault healthy_world c = None"
    by (simp add: sample_worlds)
  have ref: "user_reference healthy_world (rq_userId sample_request) sample_db = Inr (Some sample_user_id)"
    by (simp add: sample_requests sample_reference sample_worlds)
  have ai: "performAIAnalysis healthy_world (ir_audioUrl sample_ipfs) (rq_originalText sample_request)
        (rq_userId sample_request) sample_db = Inr (fallback_result (js ''well done''))"
    by (simp add: sample_requests healthy_analysis)
  have score: "decimal_3_1 healthy_world (ar_overallScore (fallback_result (js ''well done'')))
                 = Inr (Decimal 75)"
    by (simp add: fallback_score sample_decimals sample_worlds)
  have st: "fst (statistics_step healthy_world (rq_userId sample_request)
             (ar_overallScore (fallback_result (js ''well done''))) sample_db) = Inr ()"
    by (simp add: statistics_step_def sample_requests sample_ids fallback_score sample_statistics)
  note tr = success_trace [OF ok ref healthy_upload(1) ai score st fresh_sample(1), unfolded i]
  show ?thesis
    unfolding tr by (simp add: upload_fields_set_def status_patch_def)
qed

text \<open>
  Claim C4. As stated the claim fails: when a step after finalization raises, the failure
  handler sets a \<open>completed\<close> row to \<open>failed\<close>. What holds in every run: nothing
  follows \<open>failed\<close>, and nothing but \<open>failed\<close> follows \<open>completed\<close>.
\<close>

theorem failed_status_is_final:
  assumes fresh: "fresh_id w s"
  shows "failed_is_final (status_trace (generated_id w) s (snd (analyzePronunciation w rq s)))"
  using run_end_analyzePronunciation [of w rq s]
  by cases (simp_all add: failed_is_final_stage [OF fresh])

theorem failed_status_is_final_witness:
  "fresh_id statistics_down_world sample_db
   \<and> failed_is_final
       (status_trace (generated_id statistics_down_world) sample_db
          (snd (analyzePronunciation statistics_down_world sample_request sample_db)))"
  using failed_status_is_final [OF fresh_sample(1), of statistics_down_world sample_request]
    fresh_sample(1)
  by simp

theorem completed_row_marked_failed:
  "status_trace sample_attempt_id sample_db
     (snd (analyzePronunciation statistics_down_world sample_request sample_db))
     = [Some Pending, Some Processing, Some Processing, Some Completed, Some Failed]
   \<and> \<not> never_leaves_terminal
         (status_trace sample_attempt_id sample_db
            (snd (analyzePronunciation statistics_down_world sample_request sample_db)))"
proof -
  note i = sample_worlds(16)
  note f = sample_worlds(5)
  have ref: "user_reference statistics_down_world (rq_userId sample_request) sample_db
               = Inr (Some sample_user_id)"
    by (simp add: sample_requests sample_reference sample_worlds)
  have ai: "performAIAnalysis statistics_down_world (ir_audioUrl sample_ipfs)
        (rq_originalText sample_request) (rq_userId sample_request) sample_db
          = Inr (fallback_result (js ''well done''))"
    by (simp add: sample_requests healthy_analysis)
  have score: "decimal_3_1 statistics_down_world (ar_overallScore (fallback_result (js ''well done'')))
                 = Inr (Decimal 75)"
    by (simp add: fallback_score sample_decimals sample_worlds)
  have "status_trace (generated_id statistics_down_world) sample_db
     (snd (analyzePronunciation statistics_down_world sample_request sample_db))
     = [Some Pending, Some Processing, Some Processing, Some Completed, Some Failed]"
    by (simp only: run_statistics_failure [OF f f f f f f ref healthy_upload(3) ai score
          sample_requests(1) sample_ids(1) statistics_down_update, simplified]
        snd_conv trace_of_five_writes [OF fresh_sample(1)])
  then show ?thesis
    by (simp add: i)
qed

text \<open>
  Claim C5. With a user identifier supplied, when every step through finalization succeeds and
  the statistics update raises an error, \<open>analyzePronunciation\<close> raises that error and
  the row ends \<open>failed\<close>, although it holds the analysis result and was \<open>completed\<close>
  before.
\<close>

theorem statistics_failure_marks_failed:
  assumes f1: "db_fault w CreateInitialAttempt_save = None"
    and f2: "db_fault w (UpdateProcessingStatus_update Processing) = None"
    and f3: "db_fault w UpdateAttemptWithIPFS_update = None"
    and f4: "db_fault w FinalizeAnalysis_update = None"
    and f5: "db_fault w FinalizeAnalysis_findOne = None"
    and f6: "db_fault w (UpdateProcessingStatus_update Failed) = None"
    and ref: "user_reference w (rq_userId rq) s = Inr u"
    and up: "uploadAudioToIPFS w (rq_audioBuffer rq) (rq_audioMetadata rq) (generated_id w) = Inr ipfs"
    and ai: "performAIAnalysis w (ir_audioUrl ipfs) (rq_originalText rq) (rq_userId rq) s = Inr ar"
    and score: "decimal_3_1 w (ar_overallScore ar) = Inr d"
    and uid: "rq_userId rq = Some userId" "userId \<noteq> []"
    and st: "fst (updateUserStatistics w userId (ar_overallScore ar) s) = Inl err"
  shows "\<exists>s' row. analyzePronunciation w rq s = (Inl err, s')
     \<and> attempt_row (generated_id w) s' = Some row
     \<and> pa_processingStatus row = Failed
     \<and> pa_analysisResult row = jsonb (analysis_json ar)
     \<and> pa_overallScore row = d
     \<and> Some Completed \<in> set (status_trace (generated_id w) s s')
     \<and> users s' = users s"
proof -
  let ?i = "generated_id w"
  let ?doc = "jsonb (analysis_json ar)"
  let ?s0 = "insert_row (initial_attempt w rq) s"
  let ?s3 = "patch_rows ?i (final_patch ?doc d) (patch_rows ?i (ipfs_patch ipfs)
               (patch_rows ?i (status_patch Processing None) ?s0))"
  let ?s' = "patch_rows ?i (status_patch Failed (Some (message err))) ?s3"
  obtain x where x: "attempt_row ?i ?s0 = Some x"
    by (cases "attempt_row ?i s") (auto simp: attempt_row_insert_row)
  let ?row = "status_patch Failed (Some (message err))
                (final_patch ?doc d (ipfs_patch ipfs (status_patch Processing None x)))"
  have run: "analyzePronunciation w rq s = (Inl err, ?s')"
    using assms by (rule run_statistics_failure)
  have row: "attempt_row ?i ?s' = Some ?row"
    by (simp add: x)
  have fields: "pa_processingStatus ?row = Failed" "pa_analysisResult ?row = ?doc"
    "pa_overallScore ?row = d"
    by simp_all
  have "attempts ?s3 \<in> set (run_history s ?s')"
    by (simp add: run_history_def)
  then have "attempt_row ?i ?s3 \<in> set (row_trace ?i s ?s')"
    by (simp add: row_trace_def attempt_row_def)
  then have "map_option pa_processingStatus (attempt_row ?i ?s3) \<in> set (status_trace ?i s ?s')"
    by (simp add: status_trace_def)
  then have was_completed: "Some Completed \<in> set (status_trace ?i s ?s')"
    by (simp add: x)
  have "users ?s' = users s"
    by simp
  then show ?thesis
    using run row fields was_completed by blast
qed

theorem statistics_failure_marks_failed_witness:
  "db_fault statistics_down_world CreateInitialAttempt_save = None
   \<and> db_fault statistics_down_world (UpdateProcessingStatus_update Processing) = None
   \<and> db_fault statistics_down_world UpdateAttemptWithIPFS_update = None
   \<and> db_fault statistics_down_world FinalizeAnalysis_update = None
   \<and> db_fault statistics_down_world FinalizeAnalysis_findOne = None
   \<and> db_fault statistics_down_world (UpdateProcessingStatus_update Failed) = None
   \<and> user_reference statistics_down_world (rq_userId sample_request) sample_db
        = Inr (Some sample_user_id)
   \<and> uploadAudioToIPFS statistics_down_world (rq_audioBuffer sample_request)
        (rq_audioMetadata sample_request) (generated_id statistics_down_world) = Inr sample_ipfs
   \<and> performAIAnalysis statistics_down_world (ir_audioUrl sample_ipfs) (rq_originalText sample_request)
        (rq_userId sample_request) sample_db = Inr (fallback_result (js ''well done''))
   \<and> decimal_3_1 statistics_down_world (ar_overallScore (fallback_result (js ''well done'')))
        = Inr (Decimal 75)
   \<and> rq_userId sample_request = Some sample_user_id \<and> sample_user_id \<noteq> []
   \<and> fst (updateUserStatistics statistics_down_world sample_user_id
             (ar_overallScore (fallback_result (js ''well done''))) sample_db)
        = Inl (Error (js ''connection lost''))
   \<and> (\<exists>s' row. analyzePronunciation statistics_down_world sample_request sample_db
                    = (Inl (Error (js ''connection lost'')), s')
         \<and> attempt_row sample_attempt_id s' = Some row
         \<and> pa_processingStatus row = Failed
         \<and> pa_overallScore row = Decimal 75
         \<and> Some Completed \<in> set (status_trace sample_attempt_id sample_db s'))"
proof -
  note f = sample_worlds(5)
  have ref: "user_reference statistics_down_world (rq_userId sample_request) sample_db
               = Inr (Some sample_user_id)"
    by (simp add: sample_requests sample_reference sample_worlds)
  note up = healthy_upload(3) [of "rq_audioBuffer sample_request" "rq_audioMetadata sample_request"
      "generated_id statistics_down_world"]
  have ai: "performAIAnalysis statistics_down_world (ir_audioUrl sample_ipfs)
        (rq_originalText sample_request) (rq_userId sample_request) sample_db
          = Inr (fallback_result (js ''well done''))"
    by (simp add: sample_requests healthy_analysis)
  have score: "decimal_3_1 statistics_down_world (ar_overallScore (fallback_result (js ''well done'')))
                 = Inr (Decimal 75)"
    by (simp add: fallback_score sample_decimals sample_worlds)
  note uid = sample_requests(1) sample_ids(1)
  note st = statistics_down_update [of "ar_overallScore (fallback_result (js ''well done''))"]
  note i = sample_worlds(16)
  from statistics_failure_marks_failed [OF f f f f f f ref up ai score uid st]
  have "\<exists>s' row. analyzePronunciation statistics_down_world sample_request sample_db
                    = (Inl (Error (js ''connection lost'')), s')
         \<and> attempt_row sample_attempt_id s' = Some row
         \<and> pa_processingStatus row = Failed
         \<and> pa_overallScore row = Decimal 75
         \<and> Some Completed \<in> set (status_trace sample_attempt_id sample_db s')"
    by (simp add: i) blast
  then show ?thesis
    using f ref up ai score uid st by simp
qed

text \<open>
  Claim C6. The average is to be \<open>(avg * n + s) / (n + 1)\<close> rounded to one decimal place. For
  a user with 3 attempts and an average of 64.6 and a score of 70 that is 65.95, rounded
  66.0 (halves upwards, as \<open>Math.round\<close> rounds them); \<open>updateUserStatistics\<close> stores 4
  attempts and the average 65.9, because it computes on doubles: \<open>64.6 * 3\<close> is
  193.79999999999998, and the mean times 10 is 659.4999999999999, which \<open>Math.round\<close>
  takes down to 659.
\<close>

theorem updateUserStatistics_boundary_average:
  "user_row sample_user_id boundary_db = Some boundary_user
   \<and> u_totalAttempts boundary_user = 3
   \<and> u_averageScore boundary_user = Some (Decimal (646 / 10))
   \<and> (\<exists>s'. updateUserStatistics healthy_world sample_user_id (Fin 70) boundary_db = (Inr (), s')
         \<and> user_row sample_user_id s'
             = Some (boundary_user\<lparr>u_totalAttempts := 4, u_averageScore := Some (Decimal (659 / 10))\<rparr>))
   \<and> round_1dp ((646 / 10 * 3 + 70) / 4) = 66
   \<and> double_mul (Number_of (646 / 10)) (Fin 3) = Fin (6818731310815641 / 35184372088832)"
proof -
  have "\<lfloor>(660 :: rat)\<rfloor> = 660"
    by (rule floor_unique) simp_all
  then have claimed: "round_1dp ((646 / 10 * 3 + 70) / 4) = 66"
    by (simp add: round_1dp_def round_def)
  have product: "double_mul (Number_of (646 / 10)) (Fin 3) = Fin (6818731310815641 / 35184372088832)"
    by (simp add: Number_unfold)
  have "user_row sample_user_id
          (patch_users sample_user_id
             (\<lambda>r. r\<lparr>u_totalAttempts := 4, u_averageScore := Some (Decimal (659 / 10))\<rparr>) boundary_db)
        = Some (boundary_user\<lparr>u_totalAttempts := 4, u_averageScore := Some (Decimal (659 / 10))\<rparr>)"
    by (simp add: user_row_def patch_users_def boundary_db_def sample_user_rows)
  then show ?thesis
    using claimed product by (simp add: sample_statistics sample_user_rows)
qed

text \<open>
  Claim C7. The scores of a parsed result are to lie within 0 and 100 for every response text.
  On the response \<open>{"overallScore":"abc"}\<close> the parsed score is a string, the clamp
  turns it into NaN, and the returned \<open>overallScore\<close> is NaN, which is not in the range.
\<close>

theorem parseAnalysisResult_string_score:
  "ar_overallScore (parseAnalysisResult healthy_world string_score_text) = NaN
   \<and> \<not> in_0_100 (ar_overallScore (parseAnalysisResult healthy_world string_score_text))"
  by (simp add: parseAnalysisResult_def parseAnalysisResult_try_def jsonMatch_string_score
      healthy_world_def sample_JSON_parse_def sample_StringToNumber_def clamp_score_def js_or_def
      Math_max_def Math_min_def in_0_100_def js_def)

text \<open>
  Claim C8. When the upload succeeds, returning a content hash, and the AI analysis then fails,
  the row ends \<open>failed\<close> with the \<open>audioFileUrl\<close> and \<open>ipfsHash\<close> written after the
  upload, both non-empty: the failure handler changes the status and the error message
  of the uploaded row and nothing else.
\<close>

theorem ai_failure_keeps_upload_fields:
  assumes fresh: "fresh_id w s"
    and f1: "db_fault w CreateInitialAttempt_save = None"
    and ref: "user_reference w (rq_userId rq) s = Inr u"
    and f2: "db_fault w (UpdateProcessingStatus_update Processing) = None"
    and f3: "db_fault w UpdateAttemptWithIPFS_update = None"
    and f4: "db_fault w (UpdateProcessingStatus_update Failed) = None"
    and up: "uploadAudioToIPFS w (rq_audioBuffer rq) (rq_audioMetadata rq) (generated_id w) = Inr ipfs"
    and hash: "ir_ipfsHash ipfs \<noteq> []"
    and ai: "performAIAnalysis w (ir_audioUrl ipfs) (rq_originalText rq) (rq_userId rq) s = Inl err"
  shows "\<exists>s' uploaded row. analyzePronunciation w rq s = (Inl err, s')
     \<and> row_trace (generated_id w) s s' =
          [Some (initial_attempt w rq),
           Some ((initial_attempt w rq)\<lparr>pa_processingStatus := Processing\<rparr>),
           Some uploaded,
           Some row]
     \<and> uploaded = (initial_attempt w rq)
          \<lparr>pa_processingStatus := Processing, pa_ipfsHash := ir_ipfsHash ipfs, pa_audioFileUrl := ir_audioUrl ipfs\<rparr>
     \<and> row = uploaded\<lparr>pa_processingStatus := Failed, pa_errorMessage := Some (message err)\<rparr>
     \<and> attempt_row (generated_id w) s' = Some row
     \<and> pa_processingStatus row = Failed
     \<and> pa_audioFileUrl row = ir_audioUrl ipfs \<and> pa_audioFileUrl row \<noteq> []
     \<and> pa_ipfsHash row = ir_ipfsHash ipfs \<and> pa_ipfsHash row \<noteq> []"
proof -
  let ?i = "generated_id w"
  let ?r0 = "initial_attempt w rq"
  let ?s0 = "insert_row ?r0 s"
  let ?s1 = "patch_rows ?i (status_patch Processing None) ?s0"
  let ?s2 = "patch_rows ?i (ipfs_patch ipfs) ?s1"
  let ?s' = "patch_rows ?i (status_patch Failed (Some (message err))) ?s2"
  have msg: "message err \<noteq> []"
    using ai by (rule performAIAnalysis_error)
  have url: "ir_audioUrl ipfs \<noteq> []"
    using uploadAudioToIPFS_url [OF up] by blast
  have run: "analyzePronunciation w rq s = (Inl err, ?s')"
    using f1 ref f2 f3 f4 up ai by (simp add: run_unfold)
  let ?up = "?r0\<lparr>pa_processingStatus := Processing, pa_ipfsHash := ir_ipfsHash ipfs,
                   pa_audioFileUrl := ir_audioUrl ipfs\<rparr>"
  let ?row = "?up\<lparr>pa_processingStatus := Failed, pa_errorMessage := Some (message err)\<rparr>"
  have r0: "attempt_row ?i ?s0 = Some ?r0"
    using attempt_row_fresh [OF fresh] by (simp add: attempt_row_insert_row)
  have r1: "attempt_row ?i ?s1 = Some (?r0\<lparr>pa_processingStatus := Processing\<rparr>)"
    by (simp add: r0 status_patch_def)
  have r2: "attempt_row ?i ?s2 = Some ?up"
    by (simp add: r0 status_patch_def ipfs_patch_def)
  have r3: "attempt_row ?i ?s' = Some ?row"
    by (simp add: r0 msg status_patch_def ipfs_patch_def)
  have trace: "row_trace ?i s ?s' = [attempt_row ?i ?s0, attempt_row ?i ?s1, attempt_row ?i ?s2, attempt_row ?i ?s']"
    by (simp add: row_trace_def attempt_row_def)
  have fields: "pa_processingStatus ?row = Failed" "pa_audioFileUrl ?row = ir_audioUrl ipfs"
    "pa_ipfsHash ?row = ir_ipfsHash ipfs"
    by simp_all
  have fin: "attempt_row ?i ?s' = Some ?row" "pa_audioFileUrl ?row \<noteq> []" "pa_ipfsHash ?row \<noteq> []"
    using r3 url hash by simp_all
  have tr: "row_trace ?i s ?s' = [Some ?r0, Some (?r0\<lparr>pa_processingStatus := Processing\<rparr>), Some ?up, Some ?row]"
    by (simp only: trace r0 r1 r2 r3)
  show ?thesis
    using run tr fin fields by blast
qed

theorem ai_failure_keeps_upload_fields_witness:
  "fresh_id gemini_down_world sample_db
   \<and> db_fault gemini_down_world CreateInitialAttempt_save = None
   \<and> user_reference gemini_down_world (rq_userId sample_request) sample_db = Inr (Some sample_user_id)
   \<and> db_fault gemini_down_world (UpdateProcessingStatus_update Processing) = None
   \<and> db_fault gemini_down_world UpdateAttemptWithIPFS_update = None
   \<and> db_fault gemini_down_world (UpdateProcessingStatus_update Failed) = None
   \<and> uploadAudioToIPFS gemini_down_world (rq_audioBuffer sample_request)
        (rq_audioMetadata sample_request) (generated_id gemini_down_world) = Inr sample_ipfs
   \<and> ir_ipfsHash sample_ipfs \<noteq> []
   \<and> performAIAnalysis gemini_down_world (ir_audioUrl sample_ipfs) (rq_originalText sample_request)
        (rq_userId sample_request) sample_db = Inl analysis_error
   \<and> (\<exists>s' row. analyzePronunciation gemini_down_world sample_request sample_db = (Inl analysis_error, s')
         \<and> attempt_row sample_attempt_id s' = Some row
         \<and> pa_processingStatus row = Failed
         \<and> pa_audioFileUrl row = js ''https://gw.example/ipfs/Qm1''
         \<and> pa_ipfsHash row = js ''Qm1'')"
proof -
  note f = sample_worlds(3)
  have ref: "user_reference gemini_down_world (rq_userId sample_request) sample_db
               = Inr (Some sample_user_id)"
    by (simp add: sample_requests sample_reference sample_worlds)
  note up = healthy_upload(2) [of "rq_audioBuffer sample_request" "rq_audioMetadata sample_request"
      "generated_id gemini_down_world"]
  have hash: "ir_ipfsHash sample_ipfs \<noteq> []"
    by (simp add: sample_ipfs_def)
  have gem: "GeminiService_analyzePronunciation gemini_down_world g
               = Inl (Error (js ''AI analysis failed: timeout''))" for g
    by (simp add: GeminiService_analyzePronunciation_def gemini_down_world_def healthy_world_def js_def)
  have ai: "performAIAnalysis gemini_down_world (ir_audioUrl sample_ipfs) (rq_originalText sample_request)
        (rq_userId sample_request) sample_db = Inl analysis_error"
    by (simp add: performAIAnalysis_def users_findOne_def sample_worlds sample_ids gem sample_requests
        analysis_error_def) (simp add: js_def)
  note i = sample_worlds(14)
  from ai_failure_keeps_upload_fields [OF fresh_sample(1) f ref f f f up hash ai]
  obtain s' row where "analyzePronunciation gemini_down_world sample_request sample_db = (Inl analysis_error, s')"
    and "attempt_row (generated_id gemini_down_world) s' = Some row"
    and "pa_processingStatus row = Failed"
    and "pa_audioFileUrl row = ir_audioUrl sample_ipfs"
    and "pa_ipfsHash row = ir_ipfsHash sample_ipfs"
    by blast
  then have "\<exists>s' row. analyzePronunciation gemini_down_world sample_request sample_db = (Inl analysis_error, s')
         \<and> attempt_row sample_attempt_id s' = Some row
         \<and> pa_processingStatus row = Failed
         \<and> pa_audioFileUrl row = js ''https://gw.example/ipfs/Qm1''
         \<and> pa_ipfsHash row = js ''Qm1''"
    by (auto simp: i sample_ipfs_def)
  then show ?thesis
    using f ref up hash ai fresh_sample(1) by blast
qed



text \<open>
  Claim C10. As stated the claim fails: a run whose user identifier belongs to no user row does
  not reach the statistics update, because the insert of step 1 violates the foreign key
  of \<open>user_id\<close>; \<open>analyzePronunciation\<close> raises the database's error before its \<open>try\<close>
  block and stores no row. What holds: \<open>updateUserStatistics\<close>, called with the
  identifier of no user row, returns without raising and leaves the tables as they are;
  and a run with such an identifier raises the error of the foreign key and leaves the
  tables as they are.
\<close>

theorem updateUserStatistics_skips_missing_user:
  assumes find: "db_fault w UpdateUserStatistics_findOne = None"
    and uuid: "uuid_in w userId = Some u"
    and missing: "user_row u s = None"
  shows "updateUserStatistics w userId newScore s = (Inr (), s)
     \<and> (\<forall>rq. rq_userId rq = Some userId \<and> db_fault w CreateInitialAttempt_save = None
            \<longrightarrow> analyzePronunciation w rq s = (Inl (violation_error w Foreign_key), s))"
proof -
  have "user_reference w (Some userId) s = Inl Foreign_key"
    using uuid missing by (simp add: user_reference_def user_row_def)
  then have "analyzePronunciation w rq s = (Inl (violation_error w Foreign_key), s)"
    if "rq_userId rq = Some userId" and "db_fault w CreateInitialAttempt_save = None" for rq
    using that by (simp add: analyzePronunciation_def createInitialAttempt_def attempts_save_def bindS_def)
  then show ?thesis
    using updateUserStatistics_missing_user [OF find uuid missing] by simp
qed

theorem updateUserStatistics_skips_missing_user_witness:
  "db_fault healthy_world UpdateUserStatistics_findOne = None
   \<and> uuid_in healthy_world stranger_id = Some stranger_id
   \<and> user_row stranger_id sample_db = None
   \<and> updateUserStatistics healthy_world stranger_id (Fin 75) sample_db = (Inr (), sample_db)
   \<and> rq_userId stranger_request = Some stranger_id
   \<and> db_fault healthy_world CreateInitialAttempt_save = None
   \<and> analyzePronunciation healthy_world stranger_request sample_db
       = (Inl (violation_error healthy_world Foreign_key), sample_db)"
proof -
  note find = sample_worlds(1) [of UpdateUserStatistics_findOne]
  have uuid: "uuid_in healthy_world stranger_id = Some stranger_id"
    by (simp add: sample_worlds sample_ids)
  note missing = sample_user_rows(3)
  note save = sample_worlds(1) [of CreateInitialAttempt_save]
  show ?thesis
    using updateUserStatistics_skips_missing_user [OF find uuid missing, of "Fin 75"]
      find uuid missing save sample_requests(3)
    by simp
qed

theorem unknown_user_run_rejected:
  "rq_userId stranger_request = Some stranger_id
   \<and> stranger_id \<noteq> []
   \<and> user_row stranger_id sample_db = None
   \<and> (\<forall>c. db_fault healthy_world c = None)
   \<and> uploadAudioToIPFS healthy_world (rq_audioBuffer stranger_request)
        (rq_audioMetadata stranger_request) (generated_id healthy_world) = Inr sample_ipfs
   \<and> analyzePronunciation healthy_world stranger_request sample_db
       = (Inl (Error (js ''insert or update on table violates foreign key constraint'')), sample_db)
   \<and> attempts sample_db = []"
proof -
  have "user_reference healthy_world (rq_userId stranger_request) sample_db = Inl Foreign_key"
    by (simp add: sample_requests sample_reference sample_worlds)
  then have "analyzePronunciation healthy_world stranger_request sample_db
       = (Inl (Error (js ''insert or update on table violates foreign key constraint'')), sample_db)"
    by (simp add: analyzePronunciation_def createInitialAttempt_def attempts_save_def bindS_def
        sample_worlds)
  then show ?thesis
    by (simp add: sample_requests sample_ids sample_user_rows sample_worlds healthy_upload)
       (simp add: sample_db_def)
qed


end
